theory Spec2Isabelle
  imports Complex_Main "HOL-Library.AList"
begin

section \<open>JavaScript values\<close>

text \<open>
  The document stores JavaScript numbers. A slot typed \<^verbatim>\<open>number\<close> can, at run time, hold a
  finite number, \<^verbatim>\<open>NaN\<close>, or nothing at all (reading it gives \<^verbatim>\<open>undefined\<close>). Finite numbers
  are idealised as reals, so sums, products and \<^verbatim>\<open>Math.round\<close> are exact where a double
  rounds, and there is no infinity; the two non-numbers are kept apart because the
  source distinguishes them (\<^verbatim>\<open>x == null\<close> is true of \<^verbatim>\<open>undefined\<close> and false of \<^verbatim>\<open>NaN\<close>).
\<close>

datatype jsnum = Num real | NaN | Undefined

text \<open>\<^verbatim>\<open>a + b\<close>, \<^verbatim>\<open>a - b\<close>, \<^verbatim>\<open>a * b\<close> on numbers: anything but two finite numbers gives NaN.\<close>

fun js_add :: "jsnum \<Rightarrow> jsnum \<Rightarrow> jsnum" where
  "js_add (Num a) (Num b) = Num (a + b)"
| "js_add _ _ = NaN"

fun js_sub :: "jsnum \<Rightarrow> jsnum \<Rightarrow> jsnum" where
  "js_sub (Num a) (Num b) = Num (a - b)"
| "js_sub _ _ = NaN"

fun js_mul :: "jsnum \<Rightarrow> jsnum \<Rightarrow> jsnum" where
  "js_mul (Num a) (Num b) = Num (a * b)"
| "js_mul _ _ = NaN"

text \<open>
  \<^verbatim>\<open>a / b\<close>. The source divides twice: \<^verbatim>\<open>index / (length - 1)\<close>, whose divisor is zero only
  when the index is zero as well (\<^verbatim>\<open>0 / 0\<close> is NaN), and \<^verbatim>\<open>x / 10\<close>. A non-zero number
  divided by zero (an infinity in JavaScript) does not occur.
\<close>

fun js_div :: "jsnum \<Rightarrow> jsnum \<Rightarrow> jsnum" where
  "js_div (Num a) (Num b) = (if b = 0 then NaN else Num (a / b))"
| "js_div _ _ = NaN"

text \<open>\<^verbatim>\<open>Math.max(a, b)\<close>: NaN as soon as one argument is not a number.\<close>

fun Math_max :: "jsnum \<Rightarrow> jsnum \<Rightarrow> jsnum" where
  "Math_max (Num a) (Num b) = Num (max a b)"
| "Math_max _ _ = NaN"

text \<open>\<^verbatim>\<open>Math.round(x)\<close>: the nearest integer, halves rounded up.\<close>

fun Math_round :: "jsnum \<Rightarrow> jsnum" where
  "Math_round (Num a) = Num (of_int \<lfloor>a + 1 / 2\<rfloor>)"
| "Math_round _ = NaN"

text \<open>\<^verbatim>\<open>xs[i]\<close> on an array of numbers, for an index that is a natural number.\<close>

definition js_nth :: "jsnum list \<Rightarrow> nat \<Rightarrow> jsnum" where
  "js_nth xs i = (if i < length xs then xs ! i else Undefined)"

text \<open>
  \<^verbatim>\<open>xs[i]\<close> on an array whose slots may hold \<^verbatim>\<open>undefined\<close> (\<open>None\<close>), for any integer
  index: outside the array the read gives \<^verbatim>\<open>undefined\<close>.
\<close>

definition js_index :: "'a option list \<Rightarrow> int \<Rightarrow> 'a option" where
  "js_index xs i = (if 0 \<le> i \<and> i < int (length xs) then xs ! nat i else None)"

text \<open>
  The position a relative index of \<^verbatim>\<open>slice\<close> and \<^verbatim>\<open>splice\<close> denotes in an array of
  length \<open>n\<close>: a negative index counts from the end, and both ends clamp.
\<close>

definition js_relative :: "nat \<Rightarrow> int \<Rightarrow> nat" where
  "js_relative n k = (if k < 0 then nat (max (int n + k) 0) else min (nat k) n)"

text \<open>\<^verbatim>\<open>xs.slice(start, end)\<close> and \<^verbatim>\<open>xs.slice(start)\<close>.\<close>

definition js_slice :: "'a list \<Rightarrow> int \<Rightarrow> int \<Rightarrow> 'a list" where
  "js_slice xs start end =
     (let s = js_relative (length xs) start; e = js_relative (length xs) end
      in take (e - s) (drop s xs))"

definition js_slice_from :: "'a list \<Rightarrow> int \<Rightarrow> 'a list" where
  "js_slice_from xs start = drop (js_relative (length xs) start) xs"

text \<open>\<^verbatim>\<open>xs.splice(start, 1)\<close>: the array left behind.\<close>

definition js_splice1 :: "'a list \<Rightarrow> int \<Rightarrow> 'a list" where
  "js_splice1 xs start =
     (let s = js_relative (length xs) start in take s xs @ drop (s + 1) xs)"

text \<open>
  \<^verbatim>\<open>xs[i] = v\<close> on an array of numbers: inside the array the slot is overwritten, past
  its end the array grows and the slots in between read as \<^verbatim>\<open>undefined\<close>, and a negative
  index sets a property that is no element of the array.
\<close>

definition js_assign_index :: "jsnum list \<Rightarrow> int \<Rightarrow> jsnum \<Rightarrow> jsnum list" where
  "js_assign_index xs i v =
     (if i < 0 then xs
      else if nat i < length xs then xs[nat i := v]
      else xs @ replicate (nat i - length xs) Undefined @ [v])"

text \<open>\<^verbatim>\<open>n.toString()\<close> for an array index.\<close>

definition digit_char :: "nat \<Rightarrow> char" where
  "digit_char d = char_of (48 + d)"

fun toString :: "nat \<Rightarrow> string" where
  "toString n = (if n < 10 then [digit_char n] else toString (n div 10) @ [digit_char (n mod 10)])"

declare toString.simps [simp del]

section \<open>The document\<close>

datatype channel = Hue | Saturation | Lightness

definition channel_name :: "channel \<Rightarrow> string" where
  "channel_name ty = (case ty of Hue \<Rightarrow> ''hue'' | Saturation \<Rightarrow> ''saturation''
     | Lightness \<Rightarrow> ''lightness'')"

record color =
  hue :: jsnum
  saturation :: jsnum
  lightness :: jsnum

record curve =
  curve_id :: string
  curve_name :: string
  curve_type :: channel
  curve_values :: "jsnum list"

record naming_scheme =
  naming_scheme_id :: string
  naming_scheme_name :: string
  names :: "string list"

text \<open>
  A slot of \<^verbatim>\<open>scale.colors\<close> holds a color object or, after a resize of an empty scale,
  \<^verbatim>\<open>undefined\<close> (\<open>None\<close>). \<^verbatim>\<open>scale.curves\<close> has at most one curve id per channel.
\<close>

record scale =
  scale_id :: string
  scale_name :: string
  colors :: "color option list"
  scale_curves :: "channel \<Rightarrow> string option"
  namingSchemeId :: "string option"

text \<open>
  A \<^verbatim>\<open>Record<string, T>\<close> is an association list in insertion order: \<open>map_of\<close> reads a
  key, \<open>AList.update\<close> overwrites a key in place or appends a new one, \<open>AList.delete\<close>
  removes it.
\<close>

record palette =
  palette_id :: string
  palette_name :: string
  backgroundColor :: string
  scales :: "(string \<times> scale) list"
  curves :: "(string \<times> curve) list"
  namingSchemes :: "(string \<times> naming_scheme) list"

type_synonym document = "(string \<times> palette) list"

record machine_context =
  palettes :: document
  past :: "document list"
  future :: "document list"

text \<open>\<^verbatim>\<open>color[type]\<close> and \<^verbatim>\<open>{...color, [type]: v}\<close>.\<close>

definition channel_of :: "channel \<Rightarrow> color \<Rightarrow> jsnum" where
  "channel_of ty c = (case ty of Hue \<Rightarrow> hue c | Saturation \<Rightarrow> saturation c
     | Lightness \<Rightarrow> lightness c)"

definition set_channel :: "channel \<Rightarrow> jsnum \<Rightarrow> color \<Rightarrow> color" where
  "set_channel ty v c = (case ty of Hue \<Rightarrow> c\<lparr>hue := v\<rparr> | Saturation \<Rightarrow> c\<lparr>saturation := v\<rparr>
     | Lightness \<Rightarrow> c\<lparr>lightness := v\<rparr>)"

text \<open>
  \<^verbatim>\<open>{...x}\<close> for a slot \<open>x\<close>: a copy of the color, and the empty object when the slot
  holds \<^verbatim>\<open>undefined\<close>; every channel of the empty object reads as \<^verbatim>\<open>undefined\<close>.
\<close>

definition spread :: "color option \<Rightarrow> color" where
  "spread x = (case x of None \<Rightarrow> \<lparr>hue = Undefined, saturation = Undefined, lightness = Undefined\<rparr>
     | Some c \<Rightarrow> c)"

text \<open>\<^verbatim>\<open>!obj\<close> for an object: every object is truthy, the empty one too.\<close>

definition js_not_object :: "color \<Rightarrow> bool" where
  "js_not_object obj = False"

text \<open>\<^verbatim>\<open>Object.assign(color, value)\<close> for a \<^verbatim>\<open>Partial<Color>\<close>.\<close>

record partial_color =
  partial_hue :: "jsnum option"
  partial_saturation :: "jsnum option"
  partial_lightness :: "jsnum option"

definition Object_assign :: "color \<Rightarrow> partial_color \<Rightarrow> color" where
  "Object_assign c v =
     \<lparr>hue = (case partial_hue v of None \<Rightarrow> hue c | Some x \<Rightarrow> x),
      saturation = (case partial_saturation v of None \<Rightarrow> saturation c | Some x \<Rightarrow> x),
      lightness = (case partial_lightness v of None \<Rightarrow> lightness c | Some x \<Rightarrow> x)\<rparr>"

text \<open>lodash's \<^verbatim>\<open>keyBy(xs, 'id')\<close>: a later element overwrites an earlier one of the same key.\<close>

definition keyBy :: "('a \<Rightarrow> string) \<Rightarrow> 'a list \<Rightarrow> (string \<times> 'a) list" where
  "keyBy f xs = foldl (\<lambda>acc x. AList.update (f x) x acc) [] xs"

text \<open>\<^verbatim>\<open>Object.assign(target, source)\<close> on two records.\<close>

definition assign_all :: "(string \<times> 'a) list \<Rightarrow> (string \<times> 'a) list \<Rightarrow> (string \<times> 'a) list" where
  "assign_all target source = foldl (\<lambda>acc kv. AList.update (fst kv) (snd kv) acc) target source"

section \<open>Errors\<close>

text \<open>
  An action that reads a property of \<^verbatim>\<open>undefined\<close> throws a \<^verbatim>\<open>TypeError\<close>; the machine
  then keeps the state it had. \<open>GetColorUndefined\<close> marks a call of \<open>getColor\<close> outside
  the inputs its contract covers.
\<close>

datatype error = TypeError | GetColorUndefined

definition bind :: "error + 'a \<Rightarrow> ('a \<Rightarrow> error + 'b) \<Rightarrow> error + 'b" where
  "bind r f = (case r of Inl e \<Rightarrow> Inl e | Inr x \<Rightarrow> f x)"

text \<open>Running a fallible function over a list, left to right, stopping at the first error.\<close>

fun mapM :: "('a \<Rightarrow> error + 'b) \<Rightarrow> 'a list \<Rightarrow> error + 'b list" where
  "mapM f [] = Inr []"
| "mapM f (x # xs) =
     (case f x of Inl e \<Rightarrow> Inl e
      | Inr y \<Rightarrow> (case mapM f xs of Inl e \<Rightarrow> Inl e | Inr ys \<Rightarrow> Inr (y # ys)))"

text \<open>\<^verbatim>\<open>xs.map((x, index) => ...)\<close> with a callback that may throw.\<close>

definition map_indexed :: "('a \<Rightarrow> nat \<Rightarrow> error + 'b) \<Rightarrow> 'a list \<Rightarrow> error + 'b list" where
  "map_indexed f xs = mapM (\<lambda>(x, i). f x i) (zip xs [0..<length xs])"

text \<open>
  \<^verbatim>\<open>context.palettes[paletteId]\<close> and \<^verbatim>\<open>palette.scales[scaleId]\<close>, \<^verbatim>\<open>palette.curves[curveId]\<close>
  followed by a property access: a missing key is a \<^verbatim>\<open>TypeError\<close>. The function given
  computes the new value, which is stored under the same key.
\<close>

definition with_palette ::
  "machine_context \<Rightarrow> string \<Rightarrow> (palette \<Rightarrow> error + palette) \<Rightarrow> error + machine_context" where
  "with_palette c paletteId f =
     (case map_of (palettes c) paletteId of
        None \<Rightarrow> Inl TypeError
      | Some p \<Rightarrow> bind (f p) (\<lambda>p'. Inr (c\<lparr>palettes := AList.update paletteId p' (palettes c)\<rparr>)))"

definition with_scale ::
  "palette \<Rightarrow> string \<Rightarrow> (scale \<Rightarrow> error + scale) \<Rightarrow> error + palette" where
  "with_scale p scaleId f =
     (case map_of (scales p) scaleId of
        None \<Rightarrow> Inl TypeError
      | Some s \<Rightarrow> bind (f s) (\<lambda>s'. Inr (p\<lparr>scales := AList.update scaleId s' (scales p)\<rparr>)))"

definition with_curve ::
  "palette \<Rightarrow> string \<Rightarrow> (curve \<Rightarrow> error + curve) \<Rightarrow> error + palette" where
  "with_curve p curveId f =
     (case map_of (curves p) curveId of
        None \<Rightarrow> Inl TypeError
      | Some cv \<Rightarrow> bind (f cv) (\<lambda>cv'. Inr (p\<lparr>curves := AList.update curveId cv' (curves p)\<rparr>)))"

section \<open>The curve engine\<close>

text \<open>
  Modelled from the spec: \<^verbatim>\<open>getColor\<close> (the spec's \<^verbatim>\<open>resolveColor\<close>) is defined in
  \<^verbatim>\<open>utils\<close>, which is not among the source files. For each channel: when
  \<^verbatim>\<open>scale.curves[channel]\<close> is set, the effective value is
  \<^verbatim>\<open>curves[scale.curves[channel]].values[index] + scale.colors[index][channel]\<close>, otherwise
  it is \<^verbatim>\<open>scale.colors[index][channel]\<close>; the function must not fail for an index within
  the colors. The formula is read as the source reads the same formula in
  \<^verbatim>\<open>DELETE_CURVE\<close>: a value the curve does not have reads as \<^verbatim>\<open>undefined\<close>, and the sum is
  then NaN. The result is \<open>None\<close> where the formula has no value: an index outside the
  colors, a slot without a color, or a curve id that is not in \<open>curves\<close>.
\<close>

definition effective :: "(string \<times> curve) list \<Rightarrow> scale \<Rightarrow> nat \<Rightarrow> color \<Rightarrow> channel \<Rightarrow> jsnum option" where
  "effective cs sc index c ty =
     (case scale_curves sc ty of
        None \<Rightarrow> Some (channel_of ty c)
      | Some curveId \<Rightarrow>
          (case map_of cs curveId of
             None \<Rightarrow> None
           | Some cv \<Rightarrow> Some (js_add (js_nth (curve_values cv) index) (channel_of ty c))))"

definition getColor :: "(string \<times> curve) list \<Rightarrow> scale \<Rightarrow> nat \<Rightarrow> color option" where
  "getColor cs sc index =
     (if index < length (colors sc) then
        (case colors sc ! index of
           None \<Rightarrow> None
         | Some c \<Rightarrow>
             (case (effective cs sc index c Hue, effective cs sc index c Saturation,
                    effective cs sc index c Lightness) of
                (Some h, Some s, Some l) \<Rightarrow> Some \<lparr>hue = h, saturation = s, lightness = l\<rparr>
              | _ \<Rightarrow> None))
      else None)"

definition getColor_checked :: "(string \<times> curve) list \<Rightarrow> scale \<Rightarrow> nat \<Rightarrow> error + color" where
  "getColor_checked cs sc index =
     (case getColor cs sc index of None \<Rightarrow> Inl GetColorUndefined | Some c \<Rightarrow> Inr c)"

text \<open>
  Modelled from the spec: \<^verbatim>\<open>lerp\<close> is defined in \<^verbatim>\<open>utils\<close>, which is not among the source
  files; the spec calls its result the interpolation between the two endpoints at \<open>t\<close>.
\<close>

definition lerp :: "jsnum \<Rightarrow> jsnum \<Rightarrow> jsnum \<Rightarrow> jsnum" where
  "lerp start end t = js_add (js_mul (js_sub (Num 1) t) start) (js_mul t end)"

section \<open>Events\<close>

text \<open>
  The machine's events, with the payload the source gives each. Where an action asks its
  environment for a value (\<^verbatim>\<open>uniqueId()\<close>, a random CSS color name and its conversion by
  \<^verbatim>\<open>hexToColor\<close>, the example scales), the event carries the value the environment
  returned, marked \<open>env\<close> below. \<open>AFTER_200\<close> is the delayed event of the
  \<^verbatim>\<open>debouncing\<close> state: 200 ms have passed there without another command.
\<close>

datatype event =
    CREATE_PALETTE string "(string \<times> string \<times> color list) list"
      \<comment> \<open>env: the new palette id; per example scale its new id, its name, its colors\<close>
  | DUPLICATE_PALETTE string string
      \<comment> \<open>paletteId; env: the new palette id\<close>
  | DELETE_PALETTE string
  | CHANGE_PALETTE_NAME string string
  | IMPORT_SCALES string "(string \<times> scale) list" bool
      \<comment> \<open>paletteId, scales, replace\<close>
  | CHANGE_PALETTE_BACKGROUND_COLOR string string
  | CREATE_SCALE string string string color
      \<comment> \<open>paletteId; env: the new scale id, the random color name, its color\<close>
  | DELETE_SCALE string string
  | DUPLICATE_SCALE string string string
      \<comment> \<open>paletteId, scaleId; env: the new scale id\<close>
  | CHANGE_SCALE_NAME string string string
  | CREATE_COLOR string string "int option" color
      \<comment> \<open>paletteId, scaleId, afterIndex; env: the color of a random color name\<close>
  | POP_COLOR string string
  | DELETE_COLOR string string int
  | CHANGE_COLOR_VALUE string string int partial_color
  | CREATE_CURVE_FROM_SCALE string string channel string
      \<comment> \<open>paletteId, scaleId, curveType; env: the new curve id\<close>
  | CREATE_NAMING_SCHEME_FROM_SCALE string string string
      \<comment> \<open>paletteId, scaleId; env: the new naming scheme id\<close>
  | CHANGE_CURVE_NAME string string string
  | DELETE_CURVE string string
  | CHANGE_SCALE_CURVE string string channel string
      \<comment> \<open>paletteId, scaleId, curveType, curveId\<close>
  | CHANGE_SCALE_NAMING_SCHEME string string "string option"
  | CHANGE_CURVE_VALUE string string int jsnum
  | CHANGE_CURVE_VALUES string string "jsnum list"
  | CHANGE_SCALE_COLORS string string "color option list"
  | APPLY_EASING_FUNCTION string string "jsnum \<Rightarrow> jsnum"
  | UPDATE_NAMING_SCHEME string naming_scheme
  | UNDO
  | REDO
  | AFTER_200

section \<open>History actions\<close>

definition UNDO_action :: "machine_context \<Rightarrow> machine_context" where
  "UNDO_action c =
     (if length (past c) > 0 then
        (let c1 = c\<lparr>future := future c @ [palettes c]\<rparr>;
             c2 = c1\<lparr>palettes := past c1 ! (length (past c1) - 1)\<rparr>;
             c3 = c2\<lparr>past := take (length (past c2) - 1) (past c2)\<rparr>
         in c3)
      else c)"

definition REDO_action :: "machine_context \<Rightarrow> machine_context" where
  "REDO_action c =
     (if length (future c) > 0 then
        (let c1 = c\<lparr>past := past c @ [palettes c]\<rparr>;
             c2 = c1\<lparr>palettes := future c1 ! 0\<rparr>;
             c3 = c2\<lparr>future := drop 1 (future c2)\<rparr>
         in c3)
      else c)"

text \<open>The exit action of the \<^verbatim>\<open>idle\<close> state.\<close>

definition idle_exit :: "machine_context \<Rightarrow> machine_context" where
  "idle_exit c =
     (let c1 = c\<lparr>past := past c @ [palettes c]\<rparr>;
          size = 25;
          c2 = c1\<lparr>past := js_slice_from (past c1) (- size)\<rparr>;
          c3 = c2\<lparr>future := []\<rparr>
      in c3)"

section \<open>Palette and scale actions\<close>

definition CREATE_PALETTE_action ::
  "string \<Rightarrow> (string \<times> string \<times> color list) list \<Rightarrow> machine_context \<Rightarrow> error + machine_context" where
  "CREATE_PALETTE_action paletteId exampleScales c =
     (let scs = map (\<lambda>(i, name, scaleArray).
                  \<lparr>scale_id = i, scale_name = name, colors = map Some scaleArray,
                   scale_curves = (\<lambda>ty. None), namingSchemeId = None\<rparr>) exampleScales
      in Inr (c\<lparr>palettes := AList.update paletteId
                \<lparr>palette_id = paletteId, palette_name = ''Untitled'',
                 backgroundColor = ''#ffffff'', scales = keyBy scale_id scs,
                 curves = [], namingSchemes = []\<rparr> (palettes c)\<rparr>))"

definition DUPLICATE_PALETTE_action ::
  "string \<Rightarrow> string \<Rightarrow> machine_context \<Rightarrow> error + machine_context" where
  "DUPLICATE_PALETTE_action paletteId newId c =
     (case map_of (palettes c) paletteId of
        None \<Rightarrow> Inl TypeError
      | Some existingPalette \<Rightarrow>
          Inr (c\<lparr>palettes := AList.update newId
                 (existingPalette\<lparr>palette_id := newId,
                    palette_name := palette_name existingPalette @ '' (copy)''\<rparr>)
                 (palettes c)\<rparr>))"

definition DELETE_PALETTE_action :: "string \<Rightarrow> machine_context \<Rightarrow> error + machine_context" where
  "DELETE_PALETTE_action paletteId c = Inr (c\<lparr>palettes := AList.delete paletteId (palettes c)\<rparr>)"

definition CHANGE_PALETTE_NAME_action ::
  "string \<Rightarrow> string \<Rightarrow> machine_context \<Rightarrow> error + machine_context" where
  "CHANGE_PALETTE_NAME_action paletteId name c =
     with_palette c paletteId (\<lambda>p. Inr (p\<lparr>palette_name := name\<rparr>))"

definition CHANGE_PALETTE_BACKGROUND_COLOR_action ::
  "string \<Rightarrow> string \<Rightarrow> machine_context \<Rightarrow> error + machine_context" where
  "CHANGE_PALETTE_BACKGROUND_COLOR_action paletteId bg c =
     with_palette c paletteId (\<lambda>p. Inr (p\<lparr>backgroundColor := bg\<rparr>))"

definition IMPORT_SCALES_action ::
  "string \<Rightarrow> (string \<times> scale) list \<Rightarrow> bool \<Rightarrow> machine_context \<Rightarrow> error + machine_context" where
  "IMPORT_SCALES_action paletteId scs replace c =
     with_palette c paletteId (\<lambda>p.
       if replace then Inr (p\<lparr>scales := scs\<rparr>)
       else Inr (p\<lparr>scales := assign_all (scales p) scs\<rparr>))"

definition CREATE_SCALE_action ::
  "string \<Rightarrow> string \<Rightarrow> string \<Rightarrow> color \<Rightarrow> machine_context \<Rightarrow> error + machine_context" where
  "CREATE_SCALE_action paletteId scaleId name color c =
     with_palette c paletteId (\<lambda>p.
       Inr (p\<lparr>scales := AList.update scaleId
              \<lparr>scale_id = scaleId, scale_name = name, colors = [Some color],
               scale_curves = (\<lambda>ty. None), namingSchemeId = None\<rparr> (scales p)\<rparr>))"

definition DELETE_SCALE_action ::
  "string \<Rightarrow> string \<Rightarrow> machine_context \<Rightarrow> error + machine_context" where
  "DELETE_SCALE_action paletteId scaleId c =
     with_palette c paletteId (\<lambda>p. Inr (p\<lparr>scales := AList.delete scaleId (scales p)\<rparr>))"

definition DUPLICATE_SCALE_action ::
  "string \<Rightarrow> string \<Rightarrow> string \<Rightarrow> machine_context \<Rightarrow> error + machine_context" where
  "DUPLICATE_SCALE_action paletteId scaleId newId c =
     with_palette c paletteId (\<lambda>p.
       case map_of (scales p) scaleId of
         None \<Rightarrow> Inl TypeError
       | Some existingScale \<Rightarrow>
           Inr (p\<lparr>scales := AList.update newId
                  (existingScale\<lparr>scale_id := newId,
                     scale_name := scale_name existingScale @ '' (copy)''\<rparr>)
                  (scales p)\<rparr>))"

definition CHANGE_SCALE_NAME_action ::
  "string \<Rightarrow> string \<Rightarrow> string \<Rightarrow> machine_context \<Rightarrow> error + machine_context" where
  "CHANGE_SCALE_NAME_action paletteId scaleId name c =
     with_palette c paletteId (\<lambda>p. with_scale p scaleId (\<lambda>s. Inr (s\<lparr>scale_name := name\<rparr>)))"

section \<open>Color actions\<close>

definition CREATE_COLOR_action ::
  "string \<Rightarrow> string \<Rightarrow> int option \<Rightarrow> color \<Rightarrow> machine_context \<Rightarrow> error + machine_context" where
  "CREATE_COLOR_action paletteId scaleId eventAfterIndex randomColor c =
     with_palette c paletteId (\<lambda>p. with_scale p scaleId (\<lambda>s.
       let cs = colors s;
           afterIndex = (case eventAfterIndex of None \<Rightarrow> int (length cs) - 1 | Some a \<Rightarrow> a);
           color0 = spread (js_index cs afterIndex);
           color =
             (if js_not_object color0 then randomColor
              else if afterIndex = int (length cs) - 1
              then color0\<lparr>lightness := Math_max (Num 0) (js_sub (lightness color0) (Num 10))\<rparr>
              else color0)
       in Inr (s\<lparr>colors := js_slice cs 0 (afterIndex + 1) @ [Some color]
                    @ js_slice_from cs (afterIndex + 1)\<rparr>)))"

definition POP_COLOR_action ::
  "string \<Rightarrow> string \<Rightarrow> machine_context \<Rightarrow> error + machine_context" where
  "POP_COLOR_action paletteId scaleId c =
     with_palette c paletteId (\<lambda>p. with_scale p scaleId (\<lambda>s.
       if length (colors s) > 1 \<or> namingSchemeId s \<noteq> None then Inr s
       else Inr (s\<lparr>colors := butlast (colors s)\<rparr>)))"

definition DELETE_COLOR_action ::
  "string \<Rightarrow> string \<Rightarrow> int \<Rightarrow> machine_context \<Rightarrow> error + machine_context" where
  "DELETE_COLOR_action paletteId scaleId index c =
     with_palette c paletteId (\<lambda>p. with_scale p scaleId (\<lambda>s.
       if namingSchemeId s \<noteq> None then Inr s
       else if length (colors s) > 1 then Inr (s\<lparr>colors := js_splice1 (colors s) index\<rparr>)
       else Inr s))"

definition CHANGE_COLOR_VALUE_action ::
  "string \<Rightarrow> string \<Rightarrow> int \<Rightarrow> partial_color \<Rightarrow> machine_context \<Rightarrow> error + machine_context" where
  "CHANGE_COLOR_VALUE_action paletteId scaleId index v c =
     with_palette c paletteId (\<lambda>p. with_scale p scaleId (\<lambda>s.
       case js_index (colors s) index of
         None \<Rightarrow> Inl TypeError
       | Some color \<Rightarrow> Inr (s\<lparr>colors := (colors s)[nat index := Some (Object_assign color v)]\<rparr>)))"

definition CHANGE_SCALE_COLORS_action ::
  "string \<Rightarrow> string \<Rightarrow> color option list \<Rightarrow> machine_context \<Rightarrow> error + machine_context" where
  "CHANGE_SCALE_COLORS_action paletteId scaleId cs c =
     with_palette c paletteId (\<lambda>p. with_scale p scaleId (\<lambda>s. Inr (s\<lparr>colors := cs\<rparr>)))"

section \<open>Curve and naming scheme actions\<close>

definition CREATE_CURVE_FROM_SCALE_action ::
  "string \<Rightarrow> string \<Rightarrow> channel \<Rightarrow> string \<Rightarrow> machine_context \<Rightarrow> error + machine_context" where
  "CREATE_CURVE_FROM_SCALE_action paletteId scaleId curveType curveId c =
     with_palette c paletteId (\<lambda>palette.
       case map_of (scales palette) scaleId of
         None \<Rightarrow> Inl TypeError
       | Some scale \<Rightarrow>
           bind (map_indexed (\<lambda>x index. getColor_checked (curves palette) scale index) (colors scale))
             (\<lambda>effectiveColors.
                let vs = map (channel_of curveType) effectiveColors;
                    p1 = palette\<lparr>curves := AList.update curveId
                           \<lparr>curve_id = curveId,
                            curve_name = scale_name scale @ '' '' @ channel_name curveType,
                            curve_type = curveType, curve_values = vs\<rparr> (curves palette)\<rparr>;
                    s1 = scale\<lparr>scale_curves := (scale_curves scale)(curveType \<mapsto> curveId)\<rparr>;
                    s2 = s1\<lparr>colors := map (\<lambda>color. Some (set_channel curveType (Num 0) (spread color)))
                                      (colors s1)\<rparr>
                in Inr (p1\<lparr>scales := AList.update scaleId s2 (scales p1)\<rparr>)))"

definition CREATE_NAMING_SCHEME_FROM_SCALE_action ::
  "string \<Rightarrow> string \<Rightarrow> string \<Rightarrow> machine_context \<Rightarrow> error + machine_context" where
  "CREATE_NAMING_SCHEME_FROM_SCALE_action paletteId scaleId newId c =
     with_palette c paletteId (\<lambda>palette.
       case map_of (scales palette) scaleId of
         None \<Rightarrow> Inl TypeError
       | Some scale \<Rightarrow>
           let name = scale_name scale @ '' naming scheme'';
               ns = map toString [0..<length (colors scale)];
               p1 = palette\<lparr>namingSchemes := AList.update newId
                      \<lparr>naming_scheme_id = newId, naming_scheme_name = name, names = ns\<rparr>
                      (namingSchemes palette)\<rparr>
           in Inr (p1\<lparr>scales := AList.update scaleId (scale\<lparr>namingSchemeId := Some newId\<rparr>)
                          (scales p1)\<rparr>))"

definition CHANGE_CURVE_NAME_action ::
  "string \<Rightarrow> string \<Rightarrow> string \<Rightarrow> machine_context \<Rightarrow> error + machine_context" where
  "CHANGE_CURVE_NAME_action paletteId curveId name c =
     with_palette c paletteId (\<lambda>p. with_curve p curveId (\<lambda>cv. Inr (cv\<lparr>curve_name := name\<rparr>)))"

text \<open>
  One entry \<^verbatim>\<open>[type, curveId]\<close> of a scale's curves in \<^verbatim>\<open>DELETE_CURVE\<close>: when it names the
  deleted curve, every color takes the curve's value plus its own on that channel, and
  the entry is removed. The callback reads \<^verbatim>\<open>curves[curveId].values\<close> and \<^verbatim>\<open>color[type]\<close>,
  so a missing curve or a slot without a color throws; a value the curve does not have
  reads as \<^verbatim>\<open>undefined\<close>.
\<close>

definition detach_deleted :: "(string \<times> curve) list \<Rightarrow> string \<Rightarrow> scale \<Rightarrow> channel \<Rightarrow> error + scale" where
  "detach_deleted cs curveId scale ty =
     (if scale_curves scale ty = Some curveId then
        bind (map_indexed (\<lambda>slot index.
                case map_of cs curveId of
                  None \<Rightarrow> Inl TypeError
                | Some cv \<Rightarrow>
                    (case slot of
                       None \<Rightarrow> Inl TypeError
                     | Some color \<Rightarrow>
                         Inr (Some (set_channel ty
                           (js_add (js_nth (curve_values cv) index) (channel_of ty color)) color))))
              (colors scale))
          (\<lambda>cols. Inr (scale\<lparr>colors := cols, scale_curves := (scale_curves scale)(ty := None)\<rparr>))
      else Inr scale)"

definition DELETE_CURVE_action ::
  "string \<Rightarrow> string \<Rightarrow> machine_context \<Rightarrow> error + machine_context" where
  "DELETE_CURVE_action paletteId curveId c =
     with_palette c paletteId (\<lambda>palette.
       bind (mapM (\<lambda>(k, scale).
                bind (detach_deleted (curves palette) curveId scale Hue) (\<lambda>s1.
                bind (detach_deleted (curves palette) curveId s1 Saturation) (\<lambda>s2.
                bind (detach_deleted (curves palette) curveId s2 Lightness) (\<lambda>s3.
                Inr (k, s3)))))
              (scales palette))
         (\<lambda>scs. Inr (palette\<lparr>scales := scs, curves := AList.delete curveId (curves palette)\<rparr>)))"

definition CHANGE_SCALE_CURVE_action ::
  "string \<Rightarrow> string \<Rightarrow> channel \<Rightarrow> string \<Rightarrow> machine_context \<Rightarrow> error + machine_context" where
  "CHANGE_SCALE_CURVE_action paletteId scaleId curveType curveId c =
     with_palette c paletteId (\<lambda>palette. with_scale palette scaleId (\<lambda>scale.
       if curveId \<noteq> [] then
         (let s1 = scale\<lparr>colors := map (\<lambda>color. Some (set_channel curveType (Num 0) (spread color)))
                                    (colors scale)\<rparr>
          in Inr (s1\<lparr>scale_curves := (scale_curves s1)(curveType \<mapsto> curveId)\<rparr>))
       else
         bind (map_indexed (\<lambda>color index.
                 bind (getColor_checked (curves palette) scale index) (\<lambda>e.
                   Inr (Some (set_channel curveType (channel_of curveType e) (spread color)))))
               (colors scale))
           (\<lambda>cols. let s1 = scale\<lparr>colors := cols\<rparr>
                    in Inr (s1\<lparr>scale_curves := (scale_curves s1)(curveType := None)\<rparr>))))"

definition CHANGE_SCALE_NAMING_SCHEME_action ::
  "string \<Rightarrow> string \<Rightarrow> string option \<Rightarrow> machine_context \<Rightarrow> error + machine_context" where
  "CHANGE_SCALE_NAMING_SCHEME_action paletteId scaleId eventNamingSchemeId c =
     with_palette c paletteId (\<lambda>palette. with_scale palette scaleId (\<lambda>scale.
       let s1 = scale\<lparr>namingSchemeId := eventNamingSchemeId\<rparr>
       in case eventNamingSchemeId of
            None \<Rightarrow> Inr s1
          | Some nid \<Rightarrow>
              if nid = [] then Inr s1
              else (case map_of (namingSchemes palette) nid of
                      None \<Rightarrow> Inl TypeError
                    | Some ns \<Rightarrow>
                        let lastColor = js_index (colors s1) (int (length (colors s1)) - 1)
                        in Inr (s1\<lparr>colors := map (\<lambda>index.
                                     if index \<ge> length (colors s1) then lastColor
                                     else colors s1 ! index) [0..<length (names ns)]\<rparr>))))"

definition CHANGE_CURVE_VALUE_action ::
  "string \<Rightarrow> string \<Rightarrow> int \<Rightarrow> jsnum \<Rightarrow> machine_context \<Rightarrow> error + machine_context" where
  "CHANGE_CURVE_VALUE_action paletteId curveId index v c =
     with_palette c paletteId (\<lambda>p. with_curve p curveId (\<lambda>cv.
       Inr (cv\<lparr>curve_values := js_assign_index (curve_values cv) index v\<rparr>)))"

definition CHANGE_CURVE_VALUES_action ::
  "string \<Rightarrow> string \<Rightarrow> jsnum list \<Rightarrow> machine_context \<Rightarrow> error + machine_context" where
  "CHANGE_CURVE_VALUES_action paletteId curveId vs c =
     with_palette c paletteId (\<lambda>p. with_curve p curveId (\<lambda>cv. Inr (cv\<lparr>curve_values := vs\<rparr>)))"

definition APPLY_EASING_FUNCTION_action ::
  "string \<Rightarrow> string \<Rightarrow> (jsnum \<Rightarrow> jsnum) \<Rightarrow> machine_context \<Rightarrow> error + machine_context" where
  "APPLY_EASING_FUNCTION_action paletteId curveId easingFunction c =
     with_palette c paletteId (\<lambda>p. with_curve p curveId (\<lambda>cv.
       let vs = curve_values cv;
           startingPoint = js_nth vs 0;
           endingPoint = js_nth vs (length vs - 1)
       in if startingPoint = Undefined \<or> endingPoint = Undefined then Inr cv
          else Inr (cv\<lparr>curve_values := map (\<lambda>index.
                 let t = js_div (Num (real index)) (Num (real (length vs) - 1));
                     newValue = lerp startingPoint endingPoint (easingFunction t)
                 in js_div (Math_round (js_mul newValue (Num 10))) (Num 10)) [0..<length vs]\<rparr>)))"

definition UPDATE_NAMING_SCHEME_action ::
  "string \<Rightarrow> naming_scheme \<Rightarrow> machine_context \<Rightarrow> error + machine_context" where
  "UPDATE_NAMING_SCHEME_action paletteId ns c =
     with_palette c paletteId (\<lambda>palette.
       Inr (palette\<lparr>namingSchemes := AList.update (naming_scheme_id ns) ns (namingSchemes palette)\<rparr>))"

section \<open>The machine\<close>

datatype state_value = Idle | Debouncing

record machine_state =
  current :: state_value
  ctx :: machine_context

definition initialState :: machine_state where
  "initialState = \<lparr>current = Idle, ctx = \<lparr>palettes = [], past = [], future = []\<rparr>\<rparr>"

text \<open>The transition each event selects: its target, if it has one, and its action.\<close>

fun target :: "event \<Rightarrow> state_value option" where
  "target UNDO = None"
| "target REDO = None"
| "target (CREATE_PALETTE a b) = None"
| "target (DUPLICATE_PALETTE a b) = None"
| "target AFTER_200 = Some Idle"
| "target e = Some Debouncing"

fun action :: "event \<Rightarrow> machine_context \<Rightarrow> error + machine_context" where
  "action UNDO c = Inr (UNDO_action c)"
| "action REDO c = Inr (REDO_action c)"
| "action (CREATE_PALETTE newId exampleScales) c = CREATE_PALETTE_action newId exampleScales c"
| "action (DUPLICATE_PALETTE paletteId newId) c = DUPLICATE_PALETTE_action paletteId newId c"
| "action (DELETE_PALETTE paletteId) c = DELETE_PALETTE_action paletteId c"
| "action (CHANGE_PALETTE_NAME paletteId name) c = CHANGE_PALETTE_NAME_action paletteId name c"
| "action (IMPORT_SCALES paletteId scs replace) c = IMPORT_SCALES_action paletteId scs replace c"
| "action (CHANGE_PALETTE_BACKGROUND_COLOR paletteId bg) c =
     CHANGE_PALETTE_BACKGROUND_COLOR_action paletteId bg c"
| "action (CREATE_SCALE paletteId newId name color) c = CREATE_SCALE_action paletteId newId name color c"
| "action (DELETE_SCALE paletteId scaleId) c = DELETE_SCALE_action paletteId scaleId c"
| "action (DUPLICATE_SCALE paletteId scaleId newId) c = DUPLICATE_SCALE_action paletteId scaleId newId c"
| "action (CHANGE_SCALE_NAME paletteId scaleId name) c = CHANGE_SCALE_NAME_action paletteId scaleId name c"
| "action (CREATE_COLOR paletteId scaleId afterIndex randomColor) c =
     CREATE_COLOR_action paletteId scaleId afterIndex randomColor c"
| "action (POP_COLOR paletteId scaleId) c = POP_COLOR_action paletteId scaleId c"
| "action (DELETE_COLOR paletteId scaleId index) c = DELETE_COLOR_action paletteId scaleId index c"
| "action (CHANGE_COLOR_VALUE paletteId scaleId index v) c =
     CHANGE_COLOR_VALUE_action paletteId scaleId index v c"
| "action (CREATE_CURVE_FROM_SCALE paletteId scaleId curveType newId) c =
     CREATE_CURVE_FROM_SCALE_action paletteId scaleId curveType newId c"
| "action (CREATE_NAMING_SCHEME_FROM_SCALE paletteId scaleId newId) c =
     CREATE_NAMING_SCHEME_FROM_SCALE_action paletteId scaleId newId c"
| "action (CHANGE_CURVE_NAME paletteId curveId name) c = CHANGE_CURVE_NAME_action paletteId curveId name c"
| "action (DELETE_CURVE paletteId curveId) c = DELETE_CURVE_action paletteId curveId c"
| "action (CHANGE_SCALE_CURVE paletteId scaleId curveType curveId) c =
     CHANGE_SCALE_CURVE_action paletteId scaleId curveType curveId c"
| "action (CHANGE_SCALE_NAMING_SCHEME paletteId scaleId nid) c =
     CHANGE_SCALE_NAMING_SCHEME_action paletteId scaleId nid c"
| "action (CHANGE_CURVE_VALUE paletteId curveId index v) c =
     CHANGE_CURVE_VALUE_action paletteId curveId index v c"
| "action (CHANGE_CURVE_VALUES paletteId curveId vs) c = CHANGE_CURVE_VALUES_action paletteId curveId vs c"
| "action (CHANGE_SCALE_COLORS paletteId scaleId cs) c = CHANGE_SCALE_COLORS_action paletteId scaleId cs c"
| "action (APPLY_EASING_FUNCTION paletteId curveId easingFunction) c =
     APPLY_EASING_FUNCTION_action paletteId curveId easingFunction c"
| "action (UPDATE_NAMING_SCHEME paletteId ns) c = UPDATE_NAMING_SCHEME_action paletteId ns c"
| "action AFTER_200 c = Inr c"

text \<open>
  One step of the machine. An event without a target runs its action and stays. An
  event with a target leaves the current state, running the exit action of \<^verbatim>\<open>idle\<close>
  when that is the state left, then runs its own action, then enters the target. The
  delayed event is enabled in \<^verbatim>\<open>debouncing\<close> only. When an action throws, the step has no
  result.
\<close>

definition transition :: "machine_state \<Rightarrow> event \<Rightarrow> error + machine_state" where
  "transition s e =
     (case target e of
        None \<Rightarrow> bind (action e (ctx s)) (\<lambda>c'. Inr (s\<lparr>ctx := c'\<rparr>))
      | Some Idle \<Rightarrow> Inr (if current s = Debouncing then s\<lparr>current := Idle\<rparr> else s)
      | Some Debouncing \<Rightarrow>
          (let c1 = (if current s = Idle then idle_exit (ctx s) else ctx s)
           in bind (action e c1) (\<lambda>c'. Inr \<lparr>current = Debouncing, ctx = c'\<rparr>)))"

text \<open>Sending an event to the running service: a step that throws leaves the state as it was.\<close>

definition send :: "machine_state \<Rightarrow> event \<Rightarrow> machine_state" where
  "send s e = (case transition s e of Inl err \<Rightarrow> s | Inr s' \<Rightarrow> s')"

definition run :: "machine_state \<Rightarrow> event list \<Rightarrow> machine_state" where
  "run s es = foldl send s es"

section \<open>Observations\<close>

text \<open>The scale, the curve and the effective color a caller reads out of a context.\<close>

definition scale_at :: "machine_context \<Rightarrow> string \<Rightarrow> string \<Rightarrow> scale option" where
  "scale_at c paletteId scaleId =
     (case map_of (palettes c) paletteId of None \<Rightarrow> None | Some p \<Rightarrow> map_of (scales p) scaleId)"

definition curve_at :: "machine_context \<Rightarrow> string \<Rightarrow> string \<Rightarrow> curve option" where
  "curve_at c paletteId curveId =
     (case map_of (palettes c) paletteId of None \<Rightarrow> None | Some p \<Rightarrow> map_of (curves p) curveId)"

definition effective_color :: "machine_context \<Rightarrow> string \<Rightarrow> string \<Rightarrow> nat \<Rightarrow> color option" where
  "effective_color c paletteId scaleId index =
     (case map_of (palettes c) paletteId of
        None \<Rightarrow> None
      | Some p \<Rightarrow>
          (case map_of (scales p) scaleId of
             None \<Rightarrow> None
           | Some s \<Rightarrow> getColor (curves p) s index))"

text \<open>
  A scale the curve engine can resolve at every index: every slot holds a color, and
  every curve the scale refers to is among the curves given.
\<close>

definition resolvable :: "(string \<times> curve) list \<Rightarrow> scale \<Rightarrow> bool" where
  "resolvable cs sc =
     (list_all (\<lambda>slot. slot \<noteq> None) (colors sc) \<and>
      list_all (\<lambda>ty. case scale_curves sc ty of None \<Rightarrow> True | Some k \<Rightarrow> map_of cs k \<noteq> None)
        [Hue, Saturation, Lightness])"

text \<open>The invariant of the two history stacks.\<close>

definition history_bound :: "machine_context \<Rightarrow> bool" where
  "history_bound c = (length (past c) + length (future c) \<le> 25)"

section \<open>Example documents\<close>

definition gray :: color where
  "gray = \<lparr>hue = Num 0, saturation = Num 50, lightness = Num 50\<rparr>"

definition white :: color where
  "white = \<lparr>hue = Num 0, saturation = Num 0, lightness = Num 100\<rparr>"

text \<open>The palette \<^verbatim>\<open>CREATE_PALETTE\<close> makes for the id \<open>p\<close> from no example scales, under a name.\<close>

definition empty_palette :: "string \<Rightarrow> palette" where
  "empty_palette name =
     \<lparr>palette_id = ''p'', palette_name = name, backgroundColor = ''#ffffff'', scales = [],
      curves = [], namingSchemes = []\<rparr>"

definition example_scale :: "color option list \<Rightarrow> string option \<Rightarrow> scale" where
  "example_scale cs nid =
     \<lparr>scale_id = ''s'', scale_name = ''gray'', colors = cs, scale_curves = (\<lambda>ty. None),
      namingSchemeId = nid\<rparr>"

text \<open>
  A context with one palette \<open>p\<close> holding one scale \<open>s\<close>, one lightness curve \<open>k\<close> and one
  naming scheme \<open>n\<close>.
\<close>

definition example_context :: "scale \<Rightarrow> jsnum list \<Rightarrow> string list \<Rightarrow> machine_context" where
  "example_context sc vs ns =
     \<lparr>palettes =
        [(''p'', \<lparr>palette_id = ''p'', palette_name = ''Untitled'', backgroundColor = ''#ffffff'',
                   scales = [(''s'', sc)],
                   curves = [(''k'', \<lparr>curve_id = ''k'', curve_name = ''ramp'',
                                       curve_type = Lightness, curve_values = vs\<rparr>)],
                   namingSchemes = [(''n'', \<lparr>naming_scheme_id = ''n'',
                                              naming_scheme_name = ''steps'', names = ns\<rparr>)]\<rparr>)],
      past = [], future = []\<rparr>"

text \<open>
  The context after a scale was created, a lightness curve \<open>k\<close> was created from it, a
  second color was added and the first color's lightness offset was set to 5: the
  curve has one value, the scale two colors.
\<close>

definition short_curve_context :: machine_context where
  "short_curve_context =
     \<lparr>palettes =
        [(''p'', \<lparr>palette_id = ''p'', palette_name = ''Untitled'', backgroundColor = ''#ffffff'',
                   scales =
                     [(''s'', \<lparr>scale_id = ''s'', scale_name = ''gray'',
                                colors = [Some \<lparr>hue = Num 0, saturation = Num 50, lightness = Num 5\<rparr>,
                                          Some \<lparr>hue = Num 0, saturation = Num 50, lightness = Num 0\<rparr>],
                                scale_curves = (\<lambda>ty. None)(Lightness \<mapsto> ''k''),
                                namingSchemeId = None\<rparr>)],
                   curves = [(''k'', \<lparr>curve_id = ''k'', curve_name = ''gray lightness'',
                                       curve_type = Lightness, curve_values = [Num 50]\<rparr>)],
                   namingSchemes = []\<rparr>)],
      past = [[(''p'', empty_palette ''Untitled'')]], future = []\<rparr>"

text \<open>The easing function \<^verbatim>\<open>bezier-easing\<close> returns for a linear curve: \<^verbatim>\<open>x => x\<close>.\<close>

definition LinearEasing :: "jsnum \<Rightarrow> jsnum" where
  "LinearEasing x = x"

section \<open>Basic facts\<close>

lemmas machine_defs = run_def send_def transition_def initialState_def bind_def idle_exit_def
  js_slice_from_def js_relative_def UNDO_action_def REDO_action_def Let_def

lemmas access_defs = with_palette_def with_scale_def with_curve_def bind_def Let_def
  scale_at_def curve_at_def effective_color_def

lemmas example_defs = example_context_def example_scale_def empty_palette_def gray_def white_def

lemmas palette_actions =
  CHANGE_PALETTE_NAME_action_def CHANGE_PALETTE_BACKGROUND_COLOR_action_def IMPORT_SCALES_action_def
  CREATE_SCALE_action_def DELETE_SCALE_action_def DUPLICATE_SCALE_action_def CHANGE_SCALE_NAME_action_def
  CREATE_COLOR_action_def POP_COLOR_action_def DELETE_COLOR_action_def CHANGE_COLOR_VALUE_action_def
  CHANGE_SCALE_COLORS_action_def CREATE_CURVE_FROM_SCALE_action_def
  CREATE_NAMING_SCHEME_FROM_SCALE_action_def CHANGE_CURVE_NAME_action_def DELETE_CURVE_action_def
  CHANGE_SCALE_CURVE_action_def CHANGE_SCALE_NAMING_SCHEME_action_def CHANGE_CURVE_VALUE_action_def
  CHANGE_CURVE_VALUES_action_def APPLY_EASING_FUNCTION_action_def UPDATE_NAMING_SCHEME_action_def

text \<open>No command touches the history stacks: every action but UNDO and REDO edits the palettes only.\<close>

lemma with_palette_history:
  "with_palette c paletteId f = Inr c' \<Longrightarrow> past c' = past c \<and> future c' = future c"
  by (auto simp: with_palette_def bind_def split: option.splits sum.splits)

lemma action_history:
  assumes "action e c = Inr c'" "e \<noteq> UNDO" "e \<noteq> REDO"
  shows "past c' = past c \<and> future c' = future c"
proof (cases e)
  case (CREATE_PALETTE a b)
  with assms show ?thesis by (auto simp: CREATE_PALETTE_action_def Let_def)
next
  case (DUPLICATE_PALETTE a b)
  with assms show ?thesis by (auto simp: DUPLICATE_PALETTE_action_def split: option.splits)
next
  case (DELETE_PALETTE a)
  with assms show ?thesis by (auto simp: DELETE_PALETTE_action_def)
qed (use assms in \<open>auto simp: palette_actions dest: with_palette_history\<close>)

lemma idle_exit_past:
  "past (idle_exit c) = drop (Suc (length (past c)) - 25) (past c @ [palettes c])"
  by (simp add: idle_exit_def js_slice_from_def js_relative_def Let_def nat_diff_distrib' max_def)

lemma idle_exit_future: "future (idle_exit c) = []"
  by (simp add: idle_exit_def Let_def)

lemma idle_exit_palettes: "palettes (idle_exit c) = palettes c"
  by (simp add: idle_exit_def Let_def)

section \<open>Undo and redo\<close>

text \<open>When nothing is waiting to be redone, UNDO followed by REDO gives the context back.\<close>

lemma undo_redo_empty_future:
  assumes "past c \<noteq> []" "future c = []"
  shows "REDO_action (UNDO_action c) = c"
proof -
  from assms(1) have "take (length (past c) - Suc 0) (past c) @ [past c ! (length (past c) - Suc 0)] = past c"
    by (cases "past c" rule: rev_cases) (auto simp: nth_append)
  with assms show ?thesis
    by (simp add: UNDO_action_def REDO_action_def Let_def)
qed

text \<open>
  Claim C1: UNDO (with a non-empty past) followed immediately by REDO restores the
  palettes to their value before the UNDO, whatever the past and future stacks hold.

  The code does not do this once the future stack is non-empty. UNDO appends the
  present at the end of \<^verbatim>\<open>future\<close> (\<^verbatim>\<open>push\<close>, under a comment that says "at the beginning"),
  and REDO takes \<^verbatim>\<open>future[0]\<close>. After two edits named \<open>b\<close> and \<open>c\<close> and one UNDO the
  palette is named \<open>b\<close> and the future holds the one named \<open>c\<close>; a further UNDO followed
  by REDO then yields the palette named \<open>c\<close>, not \<open>b\<close>.
\<close>

theorem undo_redo_after_undo_skips_present:
  "ctx (run initialState
      [CREATE_PALETTE ''p'' [], CHANGE_PALETTE_NAME ''p'' ''b'', AFTER_200,
       CHANGE_PALETTE_NAME ''p'' ''c'', AFTER_200, UNDO])
     = \<lparr>palettes = [(''p'', empty_palette ''b'')],
        past = [[(''p'', empty_palette ''Untitled'')]],
        future = [[(''p'', empty_palette ''c'')]]\<rparr>
   \<and> ctx (run initialState
      [CREATE_PALETTE ''p'' [], CHANGE_PALETTE_NAME ''p'' ''b'', AFTER_200,
       CHANGE_PALETTE_NAME ''p'' ''c'', AFTER_200, UNDO, UNDO, REDO])
     = \<lparr>palettes = [(''p'', empty_palette ''c'')],
        past = [[(''p'', empty_palette ''Untitled'')]],
        future = [[(''p'', empty_palette ''b'')]]\<rparr>"
  by (simp add: machine_defs CREATE_PALETTE_action_def CHANGE_PALETTE_NAME_action_def
      with_palette_def keyBy_def empty_palette_def)

section \<open>The color-count floor\<close>

text \<open>What the two commands do to the scale they address.\<close>

lemma POP_COLOR_effect:
  assumes "scale_at c paletteId scaleId = Some s"
  shows "\<exists>c'. POP_COLOR_action paletteId scaleId c = Inr c' \<and>
           scale_at c' paletteId scaleId =
             Some (if length (colors s) > 1 \<or> namingSchemeId s \<noteq> None then s
                   else s\<lparr>colors := butlast (colors s)\<rparr>)"
  using assms
  by (auto simp: POP_COLOR_action_def access_defs update_conv' split: option.splits)

lemma DELETE_COLOR_floor:
  assumes "scale_at c paletteId scaleId = Some s"
  shows "\<exists>c' s'. DELETE_COLOR_action paletteId scaleId index c = Inr c' \<and>
           scale_at c' paletteId scaleId = Some s' \<and>
           (namingSchemeId s \<noteq> None \<longrightarrow> colors s' = colors s) \<and>
           (length (colors s) = 1 \<longrightarrow> colors s' = colors s) \<and>
           (1 \<le> length (colors s) \<longrightarrow> 1 \<le> length (colors s'))"
  using assms
  by (auto simp: DELETE_COLOR_action_def access_defs update_conv' js_splice1_def js_relative_def
      split: option.splits)

text \<open>
  Claim C2: for a scale with exactly one color and no naming scheme, POP_COLOR and
  DELETE_COLOR leave the colors unchanged; neither ever drops the count below one, and
  both refuse when a naming scheme is attached.

  DELETE_COLOR does so (\<open>DELETE_COLOR_floor\<close>). POP_COLOR does not: its guard returns
  early when the scale has more than one color and pops otherwise, so it removes the
  last remaining color of a scale without a naming scheme.
\<close>

theorem POP_COLOR_empties_single_color_scale:
  "POP_COLOR_action ''p'' ''s'' (example_context (example_scale [Some gray] None) [] [])
     = Inr (example_context (example_scale [] None) [] [])"
  by (simp add: POP_COLOR_action_def with_palette_def with_scale_def bind_def example_defs)

section \<open>Checkpoints\<close>

text \<open>
  Claim C3: on the transition from debouncing to idle the current (post-edit) palettes
  are pushed onto the past stack, the past is cut to its most recent 25 entries and the
  future is cleared, and the push happens on no other transition.

  The code places the checkpoint elsewhere: it is the exit action of \<^verbatim>\<open>idle\<close>, and the
  delayed transition back to \<^verbatim>\<open>idle\<close> has no action. As amended: a command that targets
  \<^verbatim>\<open>debouncing\<close> and arrives in \<^verbatim>\<open>idle\<close> first pushes the palettes as they are before
  its own edit, keeps the most recent 25 entries of the past and clears the future,
  and then applies its edit; the same command arriving in \<^verbatim>\<open>debouncing\<close>, the delayed
  transition to \<^verbatim>\<open>idle\<close>, and the commands without a target leave both stacks as they
  are; UNDO and REDO change them as their own actions say.
\<close>

theorem checkpoint_on_leaving_idle:
  assumes "transition s e = Inr s'"
  shows "(current s = Idle \<and> target e = Some Debouncing \<longrightarrow>
            current s' = Debouncing \<and>
            past (ctx s') = drop (Suc (length (past (ctx s))) - 25) (past (ctx s) @ [palettes (ctx s)]) \<and>
            future (ctx s') = [] \<and>
            action e (idle_exit (ctx s)) = Inr (ctx s'))
       \<and> (current s = Debouncing \<and> target e = Some Debouncing \<longrightarrow>
            current s' = Debouncing \<and> past (ctx s') = past (ctx s) \<and> future (ctx s') = future (ctx s))
       \<and> (e = AFTER_200 \<longrightarrow> current s' = Idle \<and> ctx s' = ctx s)
       \<and> (target e = None \<longrightarrow> current s' = current s)
       \<and> (target e = None \<and> e \<noteq> UNDO \<and> e \<noteq> REDO \<longrightarrow>
            past (ctx s') = past (ctx s) \<and> future (ctx s') = future (ctx s))
       \<and> (e = UNDO \<longrightarrow> ctx s' = UNDO_action (ctx s))
       \<and> (e = REDO \<longrightarrow> ctx s' = REDO_action (ctx s))"
proof -
  have deb: "target e = Some Debouncing \<Longrightarrow> e \<noteq> UNDO \<and> e \<noteq> REDO" by auto
  have a: "current s = Idle \<and> target e = Some Debouncing \<longrightarrow>
            current s' = Debouncing \<and>
            past (ctx s') = drop (Suc (length (past (ctx s))) - 25) (past (ctx s) @ [palettes (ctx s)]) \<and>
            future (ctx s') = [] \<and> action e (idle_exit (ctx s)) = Inr (ctx s')"
    using assms deb action_history[of e "idle_exit (ctx s)" "ctx s'"]
    by (auto simp: transition_def bind_def idle_exit_past idle_exit_future split: sum.splits)
  have b: "current s = Debouncing \<and> target e = Some Debouncing \<longrightarrow>
            current s' = Debouncing \<and> past (ctx s') = past (ctx s) \<and> future (ctx s') = future (ctx s)"
    using assms deb action_history[of e "ctx s" "ctx s'"]
    by (auto simp: transition_def bind_def split: sum.splits)
  have c: "e = AFTER_200 \<longrightarrow> current s' = Idle \<and> ctx s' = ctx s"
    using assms by (cases "current s") (auto simp: transition_def split: if_splits)
  have d: "target e = None \<longrightarrow> current s' = current s"
    using assms by (auto simp: transition_def bind_def split: sum.splits)
  have e: "target e = None \<and> e \<noteq> UNDO \<and> e \<noteq> REDO \<longrightarrow>
            past (ctx s') = past (ctx s) \<and> future (ctx s') = future (ctx s)"
    using assms action_history[of e "ctx s" "ctx s'"]
    by (auto simp: transition_def bind_def split: sum.splits)
  have f: "e = UNDO \<longrightarrow> ctx s' = UNDO_action (ctx s)"
    using assms by (auto simp: transition_def bind_def)
  have g: "e = REDO \<longrightarrow> ctx s' = REDO_action (ctx s)"
    using assms by (auto simp: transition_def bind_def)
  from a b c d e f g show ?thesis by blast
qed

text \<open>
  A rename arriving in \<^verbatim>\<open>idle\<close> after an undo: the palettes as they were before the rename
  go onto the past, and the future is cleared.
\<close>

theorem checkpoint_on_leaving_idle_witness:
  "transition
      \<lparr>current = Idle,
       ctx = \<lparr>palettes = [(''p'', empty_palette ''Untitled'')], past = [],
              future = [[(''p'', empty_palette ''c'')]]\<rparr>\<rparr>
      (CHANGE_PALETTE_NAME ''p'' ''b'')
     = Inr \<lparr>current = Debouncing,
            ctx = \<lparr>palettes = [(''p'', empty_palette ''b'')],
                   past = [[(''p'', empty_palette ''Untitled'')]], future = []\<rparr>\<rparr>
   \<and> past (ctx \<lparr>current = Debouncing,
            ctx = \<lparr>palettes = [(''p'', empty_palette ''b'')],
                   past = [[(''p'', empty_palette ''Untitled'')]], future = []\<rparr>\<rparr>)
     = drop (Suc (length ([] :: document list)) - 25) ([] @ [[(''p'', empty_palette ''Untitled'')]])"
proof -
  have h: "transition
      \<lparr>current = Idle,
       ctx = \<lparr>palettes = [(''p'', empty_palette ''Untitled'')], past = [],
              future = [[(''p'', empty_palette ''c'')]]\<rparr>\<rparr>
      (CHANGE_PALETTE_NAME ''p'' ''b'')
     = Inr \<lparr>current = Debouncing,
            ctx = \<lparr>palettes = [(''p'', empty_palette ''b'')],
                   past = [[(''p'', empty_palette ''Untitled'')]], future = []\<rparr>\<rparr>"
    by (simp add: machine_defs CHANGE_PALETTE_NAME_action_def with_palette_def empty_palette_def)
  show ?thesis using h checkpoint_on_leaving_idle [OF h] by simp
qed

text \<open>
  The claim as stated fails at the state reached by creating a palette, renaming it
  and undoing within the debounce window: the delayed transition to \<^verbatim>\<open>idle\<close> pushes
  nothing onto the empty past and leaves the future as it is.
\<close>

theorem debounce_settle_no_checkpoint:
  "run initialState [CREATE_PALETTE ''p'' [], CHANGE_PALETTE_NAME ''p'' ''b'', UNDO]
     = \<lparr>current = Debouncing,
        ctx = \<lparr>palettes = [(''p'', empty_palette ''Untitled'')], past = [],
               future = [[(''p'', empty_palette ''b'')]]\<rparr>\<rparr>
   \<and> transition
        \<lparr>current = Debouncing,
         ctx = \<lparr>palettes = [(''p'', empty_palette ''Untitled'')], past = [],
                future = [[(''p'', empty_palette ''b'')]]\<rparr>\<rparr> AFTER_200
     = Inr \<lparr>current = Idle,
            ctx = \<lparr>palettes = [(''p'', empty_palette ''Untitled'')], past = [],
                   future = [[(''p'', empty_palette ''b'')]]\<rparr>\<rparr>"
  by (simp add: machine_defs CREATE_PALETTE_action_def CHANGE_PALETTE_NAME_action_def
      with_palette_def keyBy_def empty_palette_def)

section \<open>The history cap\<close>

lemma idle_exit_bound: "history_bound (idle_exit c)"
  by (simp add: history_bound_def idle_exit_past idle_exit_future)

lemma UNDO_bound: "history_bound c \<Longrightarrow> history_bound (UNDO_action c)"
  by (cases "past c") (auto simp: history_bound_def UNDO_action_def Let_def)

lemma REDO_bound: "history_bound c \<Longrightarrow> history_bound (REDO_action c)"
  by (cases "future c") (auto simp: history_bound_def REDO_action_def Let_def)

lemma action_bound:
  assumes "action e c = Inr c'" "history_bound c"
  shows "history_bound c'"
proof (cases "e = UNDO \<or> e = REDO")
  case True
  with assms show ?thesis by (auto simp: UNDO_bound REDO_bound)
next
  case False
  with assms action_history[of e c c'] show ?thesis by (simp add: history_bound_def)
qed

lemma transition_bound:
  assumes "transition s e = Inr s'" "history_bound (ctx s)"
  shows "history_bound (ctx s')"
proof (cases "target e")
  case None
  with assms show ?thesis
    by (auto simp: transition_def bind_def split: sum.splits dest: action_bound)
next
  case (Some v)
  show ?thesis
  proof (cases v)
    case Idle
    with Some assms show ?thesis by (auto simp: transition_def split: if_splits)
  next
    case Debouncing
    with Some assms show ?thesis
      by (auto simp: transition_def bind_def Let_def idle_exit_bound split: sum.splits if_splits
          dest: action_bound)
  qed
qed

lemma send_bound: "history_bound (ctx s) \<Longrightarrow> history_bound (ctx (send s e))"
  by (auto simp: send_def split: sum.splits dest: transition_bound)

lemma run_bound: "history_bound (ctx s) \<Longrightarrow> history_bound (ctx (run s es))"
  unfolding run_def by (induction es arbitrary: s) (auto simp: send_bound)

text \<open>
  Claim C4: in every context the machine reaches from its initial context, by any
  sequence of commands, debounce settles, UNDOs and REDOs, the past stack holds at most
  25 entries; and a checkpoint that would exceed the cap drops the oldest entries: the
  new past is the past with the present appended, cut from the front.
\<close>

theorem past_never_exceeds_cap:
  "length (past (ctx (run initialState es))) \<le> 25 \<and>
   past (idle_exit c) = drop (Suc (length (past c)) - 25) (past c @ [palettes c])"
proof -
  have "history_bound (ctx initialState)" by (simp add: history_bound_def initialState_def)
  then have "history_bound (ctx (run initialState es))" by (rule run_bound)
  then show ?thesis by (simp add: history_bound_def idle_exit_past)
qed

section \<open>Attaching and detaching curves\<close>

lemma channel_all: "(\<forall>ch. P ch) \<longleftrightarrow> P Hue \<and> P Saturation \<and> P Lightness"
  by (metis channel.exhaust)

lemma channel_of_set_channel:
  "channel_of ch (set_channel ty v c) = (if ch = ty then v else channel_of ch c)"
  by (cases ch; cases ty) (simp_all add: channel_of_def set_channel_def)

lemma getColor_Some_iff:
  "getColor cs sc i = Some col \<longleftrightarrow>
     i < length (colors sc) \<and>
     (\<exists>c0. colors sc ! i = Some c0 \<and> (\<forall>ch. effective cs sc i c0 ch = Some (channel_of ch col)))"
  by (cases col) (auto simp: getColor_def channel_all channel_of_def split: option.splits)

lemma mapM_Inr:
  "mapM f xs = Inr ys \<Longrightarrow> length ys = length xs \<and> (\<forall>i<length xs. f (xs ! i) = Inr (ys ! i))"
proof (induction xs arbitrary: ys)
  case Nil
  then show ?case by simp
next
  case (Cons x xs)
  then show ?case
    by (auto simp: nth_Cons split: sum.splits nat.splits)
qed

lemma map_indexed_Inr:
  assumes "map_indexed f xs = Inr ys"
  shows "length ys = length xs" and "i < length xs \<Longrightarrow> f (xs ! i) i = Inr (ys ! i)"
  using mapM_Inr[OF assms[unfolded map_indexed_def]] by auto

lemma mapM_succeeds:
  "(\<And>x. x \<in> set xs \<Longrightarrow> \<exists>y. f x = Inr y) \<Longrightarrow> \<exists>ys. mapM f xs = Inr ys"
proof (induction xs)
  case Nil
  then show ?case by simp
next
  case (Cons x xs)
  from Cons.prems[of x] obtain y where y: "f x = Inr y" by auto
  from Cons.IH Cons.prems obtain ys where ys: "mapM f xs = Inr ys" by auto
  from y ys show ?case by simp
qed

lemma map_indexed_succeeds:
  assumes "\<And>i. i < length xs \<Longrightarrow> \<exists>y. f (xs ! i) i = Inr y"
  shows "\<exists>ys. map_indexed f xs = Inr ys"
  unfolding map_indexed_def
proof (rule mapM_succeeds)
  fix x assume "x \<in> set (zip xs [0..<length xs])"
  then obtain i where "i < length xs" "x = (xs ! i, i)"
    by (auto simp: set_zip)
  with assms[of i] show "\<exists>y. (case x of (x, i) \<Rightarrow> f x i) = Inr y" by simp
qed

lemma js_add_zero: "v \<noteq> Undefined \<Longrightarrow> js_add v (Num 0) = v"
  by (cases v) auto

lemma effective_other_channel:
  assumes "ch \<noteq> ty"
    and "scale_curves sc' ch = scale_curves sc ch"
    and "\<And>k. scale_curves sc ch = Some k \<Longrightarrow> map_of cs' k = map_of cs k"
  shows "effective cs' sc' i (set_channel ty v c0) ch = effective cs sc i c0 ch"
  using assms by (auto simp: effective_def channel_of_set_channel split: option.splits)

text \<open>A resolvable scale has an effective color at every index of its colors.\<close>

lemma resolvable_getColor:
  assumes "resolvable cs sc" and "i < length (colors sc)"
  shows "\<exists>col. getColor cs sc i = Some col"
proof -
  from assms obtain c0 where c0: "colors sc ! i = Some c0"
    by (auto simp: resolvable_def list_all_length)
  from assms(1) have "\<exists>v. effective cs sc i c0 ch = Some v" for ch
    by (cases ch) (auto simp: resolvable_def effective_def split: option.splits)
  then obtain h sa l where "effective cs sc i c0 Hue = Some h"
    "effective cs sc i c0 Saturation = Some sa" "effective cs sc i c0 Lightness = Some l"
    by metis
  with c0 assms(2) show ?thesis by (simp add: getColor_def)
qed

lemma resolvable_effective_color:
  assumes "map_of (palettes c) paletteId = Some p" and "map_of (scales p) scaleId = Some s"
    and "resolvable (curves p) s" and "i < length (colors s)"
  shows "effective_color c paletteId scaleId i \<noteq> None"
  using assms resolvable_getColor[of "curves p" s i] by (auto simp: effective_color_def)

text \<open>On a resolvable scale both actions that call \<open>getColor\<close> return.\<close>

lemma create_curve_succeeds:
  assumes "map_of (palettes c) paletteId = Some p" and "map_of (scales p) scaleId = Some s"
    and "resolvable (curves p) s"
  shows "\<exists>c1. CREATE_CURVE_FROM_SCALE_action paletteId scaleId ty newId c = Inr c1"
proof -
  have "\<exists>y. getColor_checked (curves p) s i = Inr y" if "i < length (colors s)" for i
    using resolvable_getColor[OF assms(3) that] by (auto simp: getColor_checked_def)
  then obtain ecs where
    "map_indexed (\<lambda>x index. getColor_checked (curves p) s index) (colors s) = Inr ecs"
    using map_indexed_succeeds[of "colors s" "\<lambda>x index. getColor_checked (curves p) s index"]
    by auto
  with assms(1,2) show ?thesis
    by (simp add: CREATE_CURVE_FROM_SCALE_action_def with_palette_def bind_def Let_def)
qed

lemma detach_succeeds:
  assumes "map_of (palettes c) paletteId = Some p" and "map_of (scales p) scaleId = Some s"
    and "resolvable (curves p) s"
  shows "\<exists>c2. CHANGE_SCALE_CURVE_action paletteId scaleId ty [] c = Inr c2"
proof -
  define f where "f = (\<lambda>color index.
     bind (getColor_checked (curves p) s index) (\<lambda>e.
       Inr (Some (set_channel ty (channel_of ty e) (spread color)))))"
  have "\<exists>y. f (colors s ! i) i = Inr y" if "i < length (colors s)" for i
    using resolvable_getColor[OF assms(3) that]
    by (auto simp: f_def getColor_checked_def bind_def)
  then obtain cols where "map_indexed f (colors s) = Inr cols"
    using map_indexed_succeeds[of "colors s" f] by auto
  with assms(1,2) show ?thesis
    by (simp add: CHANGE_SCALE_CURVE_action_def with_palette_def with_scale_def bind_def Let_def
        f_def)
qed

lemma attach_existing_succeeds:
  assumes "map_of (palettes c) paletteId = Some p" and "map_of (scales p) scaleId = Some s"
    and "curveId \<noteq> []"
  shows "\<exists>c3. CHANGE_SCALE_CURVE_action paletteId scaleId ty curveId c = Inr c3"
  using assms
  by (simp add: CHANGE_SCALE_CURVE_action_def with_palette_def with_scale_def bind_def Let_def)

text \<open>A curve created from the scale under a fresh id leaves every effective color as it was.\<close>

lemma create_curve_preserves:
  assumes eff: "effective_color c paletteId scaleId i = Some col"
    and fresh: "curve_at c paletteId newId = None"
    and num: "channel_of ty col \<noteq> Undefined"
    and act: "CREATE_CURVE_FROM_SCALE_action paletteId scaleId ty newId c = Inr c1"
  shows "effective_color c1 paletteId scaleId i = Some col"
proof -
  from eff obtain p s where p: "map_of (palettes c) paletteId = Some p"
    and s: "map_of (scales p) scaleId = Some s"
    and g: "getColor (curves p) s i = Some col"
    by (auto simp: effective_color_def split: option.splits)
  from fresh p have fr: "map_of (curves p) newId = None" by (simp add: curve_at_def)
  from g obtain c0 where i: "i < length (colors s)" and c0: "colors s ! i = Some c0"
    and e0: "\<And>ch. effective (curves p) s i c0 ch = Some (channel_of ch col)"
    by (auto simp: getColor_Some_iff)
  from act p s obtain ecs where
    m: "map_indexed (\<lambda>x index. getColor_checked (curves p) s index) (colors s) = Inr ecs"
    by (auto simp: CREATE_CURVE_FROM_SCALE_action_def with_palette_def bind_def split: sum.splits)
  have len: "length ecs = length (colors s)" by (rule map_indexed_Inr(1)[OF m])
  have ei: "ecs ! i = col"
    using map_indexed_Inr(2)[OF m i] g by (simp add: getColor_checked_def)
  define nc where "nc = \<lparr>curve_id = newId, curve_name = scale_name s @ '' '' @ channel_name ty,
     curve_type = ty, curve_values = map (channel_of ty) ecs\<rparr>"
  define cs' where "cs' = AList.update newId nc (curves p)"
  define s2 where "s2 = s\<lparr>scale_curves := (scale_curves s)(ty \<mapsto> newId),
     colors := map (\<lambda>color. Some (set_channel ty (Num 0) (spread color))) (colors s)\<rparr>"
  from act p s m have c1: "effective_color c1 paletteId scaleId i = getColor cs' s2 i"
    by (auto simp: CREATE_CURVE_FROM_SCALE_action_def with_palette_def bind_def Let_def
        effective_color_def update_conv' nc_def cs'_def s2_def)
  have slot: "colors s2 ! i = Some (set_channel ty (Num 0) c0)"
    using i c0 by (simp add: s2_def spread_def)
  have own: "effective cs' s2 i (set_channel ty (Num 0) c0) ty = Some (channel_of ty col)"
    using i len ei num
    by (simp add: effective_def s2_def cs'_def update_conv' nc_def channel_of_set_channel
        js_nth_def js_add_zero)
  have other: "effective cs' s2 i (set_channel ty (Num 0) c0) ch = Some (channel_of ch col)"
    if "ch \<noteq> ty" for ch
  proof -
    have "map_of cs' k = map_of (curves p) k" if "scale_curves s ch = Some k" for k
    proof -
      from e0[of ch] that have "map_of (curves p) k \<noteq> None"
        by (auto simp: effective_def split: option.splits)
      with fr have "k \<noteq> newId" by auto
      then show ?thesis by (simp add: cs'_def update_conv')
    qed
    with that have "effective cs' s2 i (set_channel ty (Num 0) c0) ch = effective (curves p) s i c0 ch"
      by (intro effective_other_channel) (auto simp: s2_def)
    with e0 show ?thesis by simp
  qed
  have "getColor cs' s2 i = Some col"
    unfolding getColor_Some_iff using i slot own other
    by (auto simp: s2_def) metis
  with c1 show ?thesis by simp
qed

text \<open>Detaching the curve of a channel leaves every effective color as it was.\<close>

lemma detach_preserves:
  assumes eff: "effective_color c paletteId scaleId i = Some col"
    and act: "CHANGE_SCALE_CURVE_action paletteId scaleId ty [] c = Inr c2"
  shows "effective_color c2 paletteId scaleId i = Some col"
proof -
  from eff obtain p s where p: "map_of (palettes c) paletteId = Some p"
    and s: "map_of (scales p) scaleId = Some s"
    and g: "getColor (curves p) s i = Some col"
    by (auto simp: effective_color_def split: option.splits)
  from g obtain c0 where i: "i < length (colors s)" and c0: "colors s ! i = Some c0"
    and e0: "\<And>ch. effective (curves p) s i c0 ch = Some (channel_of ch col)"
    by (auto simp: getColor_Some_iff)
  define f where "f = (\<lambda>color index.
     bind (getColor_checked (curves p) s index) (\<lambda>e.
       Inr (Some (set_channel ty (channel_of ty e) (spread color)))))"
  from act p s obtain cols where m: "map_indexed f (colors s) = Inr cols"
    by (auto simp: CHANGE_SCALE_CURVE_action_def with_palette_def with_scale_def bind_def f_def
        split: sum.splits)
  have len: "length cols = length (colors s)" by (rule map_indexed_Inr(1)[OF m])
  have ci: "cols ! i = Some (set_channel ty (channel_of ty col) c0)"
    using map_indexed_Inr(2)[OF m i] g c0
    by (simp add: getColor_checked_def f_def bind_def spread_def)
  define s2 where "s2 = s\<lparr>colors := cols, scale_curves := (scale_curves s)(ty := None)\<rparr>"
  from act p s m have c2: "effective_color c2 paletteId scaleId i = getColor (curves p) s2 i"
    by (auto simp: CHANGE_SCALE_CURVE_action_def with_palette_def with_scale_def bind_def Let_def
        effective_color_def update_conv' s2_def f_def)
  have own: "effective (curves p) s2 i (set_channel ty (channel_of ty col) c0) ty = Some (channel_of ty col)"
    by (simp add: effective_def s2_def channel_of_set_channel)
  have other: "effective (curves p) s2 i (set_channel ty (channel_of ty col) c0) ch = Some (channel_of ch col)"
    if "ch \<noteq> ty" for ch
  proof -
    from that have "effective (curves p) s2 i (set_channel ty (channel_of ty col) c0) ch
        = effective (curves p) s i c0 ch"
      by (intro effective_other_channel) (auto simp: s2_def)
    with e0 show ?thesis by simp
  qed
  have "getColor (curves p) s2 i = Some col"
    unfolding getColor_Some_iff using i len ci own other
    by (auto simp: s2_def) metis
  with c2 show ?thesis by simp
qed

text \<open>
  Assigning an existing curve to a channel zeroes the offsets, so the channel takes the
  curve's value; the other channels keep theirs.
\<close>

lemma attach_existing_follows_curve:
  assumes eff: "effective_color c paletteId scaleId i = Some col"
    and ne: "curveId \<noteq> []"
    and cv: "curve_at c paletteId curveId = Some cv"
    and act: "CHANGE_SCALE_CURVE_action paletteId scaleId ty curveId c = Inr c3"
  shows "effective_color c3 paletteId scaleId i
         = Some (set_channel ty (js_add (js_nth (curve_values cv) i) (Num 0)) col)"
proof -
  from eff obtain p s where p: "map_of (palettes c) paletteId = Some p"
    and s: "map_of (scales p) scaleId = Some s"
    and g: "getColor (curves p) s i = Some col"
    by (auto simp: effective_color_def split: option.splits)
  from cv p have cvp: "map_of (curves p) curveId = Some cv" by (simp add: curve_at_def)
  from g obtain c0 where i: "i < length (colors s)" and c0: "colors s ! i = Some c0"
    and e0: "\<And>ch. effective (curves p) s i c0 ch = Some (channel_of ch col)"
    by (auto simp: getColor_Some_iff)
  define s2 where "s2 = s\<lparr>colors := map (\<lambda>color. Some (set_channel ty (Num 0) (spread color))) (colors s),
     scale_curves := (scale_curves s)(ty \<mapsto> curveId)\<rparr>"
  let ?col' = "set_channel ty (js_add (js_nth (curve_values cv) i) (Num 0)) col"
  from act p s ne have c3: "effective_color c3 paletteId scaleId i = getColor (curves p) s2 i"
    by (auto simp: CHANGE_SCALE_CURVE_action_def with_palette_def with_scale_def bind_def Let_def
        effective_color_def update_conv' s2_def)
  have slot: "colors s2 ! i = Some (set_channel ty (Num 0) c0)"
    using i c0 by (simp add: s2_def spread_def)
  have own: "effective (curves p) s2 i (set_channel ty (Num 0) c0) ty = Some (channel_of ty ?col')"
    using cvp by (simp add: effective_def s2_def channel_of_set_channel)
  have other: "effective (curves p) s2 i (set_channel ty (Num 0) c0) ch = Some (channel_of ch ?col')"
    if "ch \<noteq> ty" for ch
  proof -
    from that have "effective (curves p) s2 i (set_channel ty (Num 0) c0) ch
        = effective (curves p) s i c0 ch"
      by (intro effective_other_channel) (auto simp: s2_def)
    with e0 that show ?thesis by (simp add: channel_of_set_channel)
  qed
  have "getColor (curves p) s2 i = Some ?col'"
    unfolding getColor_Some_iff using i slot own other
    by (auto simp: s2_def) metis
  with c3 show ?thesis by simp
qed

text \<open>
  The context \<open>short_curve_context\<close> is reached from the initial state; its curve is
  shorter than its scale, since \<^verbatim>\<open>CREATE_COLOR\<close> adds a color and no curve value.
\<close>

lemma short_curve_context_reachable:
  "ctx (run initialState
     [CREATE_PALETTE ''p'' [], CREATE_SCALE ''p'' ''s'' ''gray'' gray,
      CREATE_CURVE_FROM_SCALE ''p'' ''s'' Lightness ''k'', CREATE_COLOR ''p'' ''s'' None white,
      CHANGE_COLOR_VALUE ''p'' ''s'' 0
        \<lparr>partial_hue = None, partial_saturation = None, partial_lightness = Some (Num 5)\<rparr>])
   = short_curve_context"
  by (simp add: machine_defs access_defs CREATE_PALETTE_action_def CREATE_SCALE_action_def
      CREATE_CURVE_FROM_SCALE_action_def CREATE_COLOR_action_def CHANGE_COLOR_VALUE_action_def
      keyBy_def map_indexed_def getColor_checked_def getColor_def effective_def channel_of_def
      set_channel_def spread_def channel_name_def js_index_def js_nth_def js_not_object_def
      js_slice_def Object_assign_def short_curve_context_def example_defs)

text \<open>
  Claim C5: for every scale, channel and valid index, the effective color before
  attaching a curve to the channel equals the effective color right after, and the
  same for detaching.

  As amended: for a scale whose slots all hold colors and whose curves all exist in the
  palette, the effective color is defined at every valid index, and (1) creating a
  curve from the scale (\<^verbatim>\<open>CREATE_CURVE_FROM_SCALE\<close>, under an id no curve of the palette has)
  returns and leaves the effective color unchanged at every index where the channel's
  effective value is not \<^verbatim>\<open>undefined\<close>; (2) detaching (\<^verbatim>\<open>CHANGE_SCALE_CURVE\<close> with an empty
  curve id) returns and leaves the effective color unchanged at every index; (3)
  assigning an existing curve (\<^verbatim>\<open>CHANGE_SCALE_CURVE\<close> with a curve id) returns and does not
  preserve it: at every index the channel becomes the curve's value there plus a zero
  offset, and the other channels stay.
\<close>

theorem curve_attach_detach_effective_color:
  assumes "map_of (palettes c) paletteId = Some p"
    and "map_of (scales p) scaleId = Some s"
    and "resolvable (curves p) s"
  shows "(\<forall>i < length (colors s). effective_color c paletteId scaleId i \<noteq> None)
       \<and> (map_of (curves p) newId = None \<longrightarrow>
            (\<exists>c1. CREATE_CURVE_FROM_SCALE_action paletteId scaleId ty newId c = Inr c1 \<and>
               (\<forall>i col. effective_color c paletteId scaleId i = Some col \<and>
                         channel_of ty col \<noteq> Undefined \<longrightarrow>
                         effective_color c1 paletteId scaleId i = Some col)))
       \<and> (\<exists>c2. CHANGE_SCALE_CURVE_action paletteId scaleId ty [] c = Inr c2 \<and>
               (\<forall>i col. effective_color c paletteId scaleId i = Some col \<longrightarrow>
                         effective_color c2 paletteId scaleId i = Some col))
       \<and> (curveId \<noteq> [] \<and> map_of (curves p) curveId = Some cv \<longrightarrow>
            (\<exists>c3. CHANGE_SCALE_CURVE_action paletteId scaleId ty curveId c = Inr c3 \<and>
               (\<forall>i col. effective_color c paletteId scaleId i = Some col \<longrightarrow>
                         effective_color c3 paletteId scaleId i
                           = Some (set_channel ty (js_add (js_nth (curve_values cv) i) (Num 0)) col))))"
proof (intro conjI impI allI)
  fix i assume "i < length (colors s)"
  with assms show "effective_color c paletteId scaleId i \<noteq> None"
    by (rule resolvable_effective_color)
next
  assume fresh: "map_of (curves p) newId = None"
  with assms(1) have fr: "curve_at c paletteId newId = None" by (simp add: curve_at_def)
  from create_curve_succeeds[OF assms] obtain c1 where
    a: "CREATE_CURVE_FROM_SCALE_action paletteId scaleId ty newId c = Inr c1" by blast
  have "effective_color c1 paletteId scaleId i = Some col"
    if "effective_color c paletteId scaleId i = Some col \<and> channel_of ty col \<noteq> Undefined"
    for i col
    using that create_curve_preserves[OF _ fr _ a] by blast
  with a show "\<exists>c1. CREATE_CURVE_FROM_SCALE_action paletteId scaleId ty newId c = Inr c1 \<and>
               (\<forall>i col. effective_color c paletteId scaleId i = Some col \<and>
                         channel_of ty col \<noteq> Undefined \<longrightarrow>
                         effective_color c1 paletteId scaleId i = Some col)"
    by blast
next
  from detach_succeeds[OF assms] obtain c2 where
    a: "CHANGE_SCALE_CURVE_action paletteId scaleId ty [] c = Inr c2" by blast
  have "effective_color c2 paletteId scaleId i = Some col"
    if "effective_color c paletteId scaleId i = Some col" for i col
    using that a by (rule detach_preserves)
  with a show "\<exists>c2. CHANGE_SCALE_CURVE_action paletteId scaleId ty [] c = Inr c2 \<and>
               (\<forall>i col. effective_color c paletteId scaleId i = Some col \<longrightarrow>
                         effective_color c2 paletteId scaleId i = Some col)"
    by blast
next
  assume h: "curveId \<noteq> [] \<and> map_of (curves p) curveId = Some cv"
  with assms(1) have cv: "curve_at c paletteId curveId = Some cv" by (simp add: curve_at_def)
  from h attach_existing_succeeds[OF assms(1,2)] obtain c3 where
    a: "CHANGE_SCALE_CURVE_action paletteId scaleId ty curveId c = Inr c3" by blast
  have "effective_color c3 paletteId scaleId i
          = Some (set_channel ty (js_add (js_nth (curve_values cv) i) (Num 0)) col)"
    if "effective_color c paletteId scaleId i = Some col" for i col
    using that h cv a attach_existing_follows_curve by blast
  with a show "\<exists>c3. CHANGE_SCALE_CURVE_action paletteId scaleId ty curveId c = Inr c3 \<and>
               (\<forall>i col. effective_color c paletteId scaleId i = Some col \<longrightarrow>
                         effective_color c3 paletteId scaleId i
                           = Some (set_channel ty (js_add (js_nth (curve_values cv) i) (Num 0)) col))"
    by blast
qed

text \<open>
  In \<open>short_curve_context\<close> the lightness curve \<open>k\<close> with the single value 50 is attached
  to a scale of two colors with the lightness offsets 5 and 0: the effective lightness
  is 55 at index 0 and NaN at index 1. Creating a curve and detaching keep both, and
  both change what is stored; assigning \<open>k\<close> again sets the lightness at index 0 to 50.
\<close>

theorem curve_attach_detach_effective_color_witness:
  "effective_color short_curve_context ''p'' ''s'' 0
     = Some \<lparr>hue = Num 0, saturation = Num 50, lightness = Num 55\<rparr>
   \<and> effective_color short_curve_context ''p'' ''s'' 1
     = Some \<lparr>hue = Num 0, saturation = Num 50, lightness = NaN\<rparr>
   \<and> (\<exists>c1. CREATE_CURVE_FROM_SCALE_action ''p'' ''s'' Lightness ''new'' short_curve_context = Inr c1
         \<and> c1 \<noteq> short_curve_context
         \<and> effective_color c1 ''p'' ''s'' 0
             = Some \<lparr>hue = Num 0, saturation = Num 50, lightness = Num 55\<rparr>
         \<and> effective_color c1 ''p'' ''s'' 1
             = Some \<lparr>hue = Num 0, saturation = Num 50, lightness = NaN\<rparr>)
   \<and> (\<exists>c2. CHANGE_SCALE_CURVE_action ''p'' ''s'' Lightness [] short_curve_context = Inr c2
         \<and> map_option colors (scale_at c2 ''p'' ''s'')
             = Some [Some \<lparr>hue = Num 0, saturation = Num 50, lightness = Num 55\<rparr>,
                     Some \<lparr>hue = Num 0, saturation = Num 50, lightness = NaN\<rparr>]
         \<and> effective_color c2 ''p'' ''s'' 0
             = Some \<lparr>hue = Num 0, saturation = Num 50, lightness = Num 55\<rparr>
         \<and> effective_color c2 ''p'' ''s'' 1
             = Some \<lparr>hue = Num 0, saturation = Num 50, lightness = NaN\<rparr>)
   \<and> (\<exists>c3. CHANGE_SCALE_CURVE_action ''p'' ''s'' Lightness ''k'' short_curve_context = Inr c3
         \<and> effective_color c3 ''p'' ''s'' 0
             = Some \<lparr>hue = Num 0, saturation = Num 50, lightness = Num 50\<rparr>
         \<and> effective_color c3 ''p'' ''s'' 1
             = Some \<lparr>hue = Num 0, saturation = Num 50, lightness = NaN\<rparr>)"
proof -
  let ?c = short_curve_context
  let ?cv = "\<lparr>curve_id = ''k'', curve_name = ''gray lightness'', curve_type = Lightness,
              curve_values = [Num 50]\<rparr>"
  let ?e0 = "\<lparr>hue = Num 0, saturation = Num 50, lightness = Num 55\<rparr>"
  let ?e1 = "\<lparr>hue = Num 0, saturation = Num 50, lightness = NaN\<rparr>"
  obtain p s where p: "map_of (palettes ?c) ''p'' = Some p"
    and s: "map_of (scales p) ''s'' = Some s"
    and cs: "curves p = [(''k'', ?cv)]"
    and sv: "s = \<lparr>scale_id = ''s'', scale_name = ''gray'',
                  colors = [Some \<lparr>hue = Num 0, saturation = Num 50, lightness = Num 5\<rparr>,
                            Some \<lparr>hue = Num 0, saturation = Num 50, lightness = Num 0\<rparr>],
                  scale_curves = (\<lambda>ty. None)(Lightness \<mapsto> ''k''), namingSchemeId = None\<rparr>"
    by (simp add: short_curve_context_def)
  have r: "resolvable (curves p) s"
    by (simp add: resolvable_def cs sv)
  have fresh: "map_of (curves p) ''new'' = None" by (simp add: cs)
  have k: "''k'' \<noteq> [] \<and> map_of (curves p) ''k'' = Some ?cv" by (simp add: cs)
  have e0: "effective_color ?c ''p'' ''s'' 0 = Some ?e0"
    by (simp add: effective_color_def getColor_def effective_def channel_of_def js_nth_def
        short_curve_context_def)
  have e1: "effective_color ?c ''p'' ''s'' 1 = Some ?e1"
    by (simp add: effective_color_def getColor_def effective_def channel_of_def js_nth_def
        short_curve_context_def)
  have n0: "channel_of Lightness ?e0 \<noteq> Undefined" and n1: "channel_of Lightness ?e1 \<noteq> Undefined"
    by (simp_all add: channel_of_def)
  note inst = curve_attach_detach_effective_color [OF p s r, of "''new''" Lightness "''k''" ?cv]
  from inst fresh obtain c1 where
    a1: "CREATE_CURVE_FROM_SCALE_action ''p'' ''s'' Lightness ''new'' ?c = Inr c1"
    and p1: "\<And>i col. effective_color ?c ''p'' ''s'' i = Some col \<and> channel_of Lightness col \<noteq> Undefined
               \<Longrightarrow> effective_color c1 ''p'' ''s'' i = Some col"
    by blast
  from inst obtain c2 where
    a2: "CHANGE_SCALE_CURVE_action ''p'' ''s'' Lightness [] ?c = Inr c2"
    and p2: "\<And>i col. effective_color ?c ''p'' ''s'' i = Some col
               \<Longrightarrow> effective_color c2 ''p'' ''s'' i = Some col"
    by blast
  from inst k obtain c3 where
    a3: "CHANGE_SCALE_CURVE_action ''p'' ''s'' Lightness ''k'' ?c = Inr c3"
    and p3: "\<And>i col. effective_color ?c ''p'' ''s'' i = Some col
               \<Longrightarrow> effective_color c3 ''p'' ''s'' i
                   = Some (set_channel Lightness (js_add (js_nth (curve_values ?cv) i) (Num 0)) col)"
    by blast
  have d1: "c1 \<noteq> ?c"
    using a1
    by (auto simp: CREATE_CURVE_FROM_SCALE_action_def with_palette_def bind_def map_indexed_def
        getColor_checked_def getColor_def effective_def channel_of_def js_nth_def
        short_curve_context_def)
  have d2: "map_option colors (scale_at c2 ''p'' ''s'') = Some [Some ?e0, Some ?e1]"
    using a2
    by (auto simp: CHANGE_SCALE_CURVE_action_def access_defs map_indexed_def
        getColor_checked_def getColor_def effective_def channel_of_def set_channel_def spread_def
        js_nth_def short_curve_context_def)
  have q3: "effective_color c3 ''p'' ''s'' 0
              = Some \<lparr>hue = Num 0, saturation = Num 50, lightness = Num 50\<rparr>"
    using p3[OF e0] by (simp add: set_channel_def js_nth_def)
  have q4: "effective_color c3 ''p'' ''s'' 1 = Some ?e1"
    using p3[OF e1] by (simp add: set_channel_def js_nth_def)
  from e0 e1 a1 a2 a3 d1 d2 q3 q4 p1[of 0 ?e0] p1[of 1 ?e1] p2[OF e0] p2[OF e1] n0 n1
  show ?thesis by simp
qed

text \<open>
  The claim as stated fails for assigning an existing curve: the gray of lightness 50
  becomes a gray of lightness 20.
\<close>

theorem attach_existing_changes_color:
  "effective_color (example_context (example_scale [Some gray] None) [Num 20] []) ''p'' ''s'' 0
     = Some \<lparr>hue = Num 0, saturation = Num 50, lightness = Num 50\<rparr>
   \<and> CHANGE_SCALE_CURVE_action ''p'' ''s'' Lightness ''k''
        (example_context (example_scale [Some gray] None) [Num 20] [])
     = Inr (example_context
              ((example_scale [Some \<lparr>hue = Num 0, saturation = Num 50, lightness = Num 0\<rparr>] None)
                 \<lparr>scale_curves := (\<lambda>ty. None)(Lightness \<mapsto> ''k'')\<rparr>) [Num 20] [])
   \<and> effective_color (example_context
              ((example_scale [Some \<lparr>hue = Num 0, saturation = Num 50, lightness = Num 0\<rparr>] None)
                 \<lparr>scale_curves := (\<lambda>ty. None)(Lightness \<mapsto> ''k'')\<rparr>) [Num 20] []) ''p'' ''s'' 0
     = Some \<lparr>hue = Num 0, saturation = Num 50, lightness = Num 20\<rparr>"
  by (simp add: CHANGE_SCALE_CURVE_action_def with_palette_def with_scale_def bind_def
      effective_color_def getColor_def effective_def channel_of_def set_channel_def spread_def
      js_nth_def example_defs)

section \<open>Creating a color in an empty scale\<close>

text \<open>
  Whatever index and random color the event carries, the color \<^verbatim>\<open>CREATE_COLOR\<close> puts into
  an empty scale has no hue and no saturation: it is the spread of \<^verbatim>\<open>undefined\<close>.
\<close>

lemma CREATE_COLOR_empty_scale:
  assumes "scale_at c paletteId scaleId = Some s" and "colors s = []"
  shows "\<exists>c' col. CREATE_COLOR_action paletteId scaleId afterIndex randomColor c = Inr c' \<and>
           map_option colors (scale_at c' paletteId scaleId) = Some [Some col] \<and>
           hue col = Undefined \<and> saturation col = Undefined"
  using assms
  by (auto simp: CREATE_COLOR_action_def access_defs update_conv' js_index_def spread_def
      js_not_object_def js_slice_def js_slice_from_def split: option.splits)

text \<open>
  Claim C6: for a scale without colors, CREATE_COLOR inserts a color made from a random
  CSS color name, a well-formed hue/saturation/lightness color.

  The code does not: it tests \<^verbatim>\<open>!color\<close> on \<^verbatim>\<open>{...colors[afterIndex]}\<close>, which is an object
  (the empty one here) and so never falsy. The branch that takes the random color is
  never run; the color inserted has no hue, no saturation and the lightness NaN.
\<close>

theorem CREATE_COLOR_empty_scale_inserts_malformed_color:
  "CREATE_COLOR_action ''p'' ''s'' None white (example_context (example_scale [] None) [] [])
     = Inr (example_context
              (example_scale [Some \<lparr>hue = Undefined, saturation = Undefined, lightness = NaN\<rparr>] None)
              [] [])"
  by (simp add: CREATE_COLOR_action_def with_palette_def with_scale_def bind_def js_index_def
      spread_def js_not_object_def js_slice_def js_slice_from_def js_relative_def example_defs)

section \<open>Palette commands and the debounce window\<close>

text \<open>
  Claim C7: CREATE_PALETTE, DUPLICATE_PALETTE and DELETE_PALETTE never cause a transition
  into debouncing and never lead to a checkpoint; they are applied immediately.

  As amended: CREATE_PALETTE and DUPLICATE_PALETTE have no target: they apply their
  action in the current state, which stays, and leave both history stacks as they are.
  DELETE_PALETTE has the target \<^verbatim>\<open>debouncing\<close>: it always ends there, with the palette
  removed, and when it arrives in \<^verbatim>\<open>idle\<close> the palettes as they were before the deletion
  are pushed onto the past and the future is cleared.
\<close>

theorem palette_commands_and_debouncing:
  assumes "transition s e = Inr s'"
  shows "(e = CREATE_PALETTE newId exampleScales \<or> e = DUPLICATE_PALETTE paletteId newId \<longrightarrow>
            current s' = current s \<and> action e (ctx s) = Inr (ctx s') \<and>
            past (ctx s') = past (ctx s) \<and> future (ctx s') = future (ctx s))
       \<and> (e = DELETE_PALETTE paletteId \<longrightarrow>
            current s' = Debouncing \<and>
            palettes (ctx s') = AList.delete paletteId (palettes (ctx s)))
       \<and> (e = DELETE_PALETTE paletteId \<and> current s = Idle \<longrightarrow>
            past (ctx s') = drop (Suc (length (past (ctx s))) - 25) (past (ctx s) @ [palettes (ctx s)]) \<and>
            future (ctx s') = [])"
proof -
  have a: "e = CREATE_PALETTE newId exampleScales \<or> e = DUPLICATE_PALETTE paletteId newId \<longrightarrow>
            current s' = current s \<and> action e (ctx s) = Inr (ctx s') \<and>
            past (ctx s') = past (ctx s) \<and> future (ctx s') = future (ctx s)"
    using assms action_history[of e "ctx s" "ctx s'"]
    by (auto simp: transition_def bind_def split: sum.splits)
  have b: "e = DELETE_PALETTE paletteId \<longrightarrow>
            current s' = Debouncing \<and> palettes (ctx s') = AList.delete paletteId (palettes (ctx s))"
    using assms
    by (auto simp: transition_def bind_def DELETE_PALETTE_action_def Let_def idle_exit_palettes
        split: sum.splits if_splits)
  have c: "e = DELETE_PALETTE paletteId \<and> current s = Idle \<longrightarrow>
            past (ctx s') = drop (Suc (length (past (ctx s))) - 25) (past (ctx s) @ [palettes (ctx s)]) \<and>
            future (ctx s') = []"
    using assms
    by (auto simp: transition_def bind_def DELETE_PALETTE_action_def Let_def idle_exit_past
        idle_exit_future split: sum.splits if_splits)
  from a b c show ?thesis by blast
qed

text \<open>
  Creating the palette \<open>p\<close> in the initial state: the machine stays idle and the past
  stays empty. Deleting it again: the machine enters \<^verbatim>\<open>debouncing\<close>, the palettes before the
  deletion are on the past.
\<close>

theorem palette_commands_and_debouncing_witness:
  "transition initialState (CREATE_PALETTE ''p'' [])
     = Inr \<lparr>current = Idle,
            ctx = \<lparr>palettes = [(''p'', empty_palette ''Untitled'')], past = [], future = []\<rparr>\<rparr>
   \<and> current \<lparr>current = Idle,
            ctx = \<lparr>palettes = [(''p'', empty_palette ''Untitled'')], past = [], future = []\<rparr>\<rparr>
     = current initialState
   \<and> past (ctx \<lparr>current = Idle,
            ctx = \<lparr>palettes = [(''p'', empty_palette ''Untitled'')], past = [], future = []\<rparr>\<rparr>)
     = past (ctx initialState)
   \<and> transition
        \<lparr>current = Idle,
         ctx = \<lparr>palettes = [(''p'', empty_palette ''Untitled'')], past = [], future = []\<rparr>\<rparr>
        (DELETE_PALETTE ''p'')
     = Inr \<lparr>current = Debouncing,
            ctx = \<lparr>palettes = AList.delete ''p'' [(''p'', empty_palette ''Untitled'')],
                   past = [[(''p'', empty_palette ''Untitled'')]], future = []\<rparr>\<rparr>"
proof -
  let ?s1 = "\<lparr>current = Idle,
            ctx = \<lparr>palettes = [(''p'', empty_palette ''Untitled'')], past = [], future = []\<rparr>\<rparr>"
  let ?s2 = "\<lparr>current = Debouncing,
            ctx = \<lparr>palettes = AList.delete ''p'' [(''p'', empty_palette ''Untitled'')],
                   past = [[(''p'', empty_palette ''Untitled'')]], future = []\<rparr>\<rparr>"
  have h1: "transition initialState (CREATE_PALETTE ''p'' []) = Inr ?s1"
    by (simp add: machine_defs CREATE_PALETTE_action_def keyBy_def empty_palette_def)
  have h2: "transition ?s1 (DELETE_PALETTE ''p'') = Inr ?s2"
    by (simp add: machine_defs DELETE_PALETTE_action_def)
  show ?thesis
    using h1 h2
      palette_commands_and_debouncing [OF h1, of "''p''" "[]" "''p''"]
      palette_commands_and_debouncing [OF h2, of "''p''" "[]" "''p''"]
    by simp
qed

text \<open>
  The claim as stated fails for DELETE_PALETTE: sent to the idle machine that holds the
  palette \<open>p\<close>, it ends in \<^verbatim>\<open>debouncing\<close>, and the palettes as they were before the deletion
  are on the past stack.
\<close>

theorem DELETE_PALETTE_enters_debouncing:
  "transition
      \<lparr>current = Idle,
       ctx = \<lparr>palettes = [(''p'', empty_palette ''Untitled'')], past = [], future = []\<rparr>\<rparr>
      (DELETE_PALETTE ''p'')
     = Inr \<lparr>current = Debouncing,
            ctx = \<lparr>palettes = [], past = [[(''p'', empty_palette ''Untitled'')]], future = []\<rparr>\<rparr>"
  by (simp add: machine_defs DELETE_PALETTE_action_def empty_palette_def)

section \<open>Applying an easing function\<close>

text \<open>
  With both end points present, every value of the curve is rewritten to the rounded
  interpolation between the first and the last value; an empty curve is left alone.
  The values are those of exact real arithmetic: a double can fall on the other side
  of a rounding tie (where the exact product is 13.5 a double may hold 13.4999...,
  which rounds to 13 and not 14), and a double can overflow to an infinity, which
  \<open>jsnum\<close> does not hold.
\<close>

lemma APPLY_EASING_FUNCTION_values:
  assumes "curve_at c paletteId curveId = Some cv"
    and "js_nth (curve_values cv) 0 \<noteq> Undefined"
    and "js_nth (curve_values cv) (length (curve_values cv) - 1) \<noteq> Undefined"
  shows "\<exists>c' cv'. APPLY_EASING_FUNCTION_action paletteId curveId easingFunction c = Inr c' \<and>
           curve_at c' paletteId curveId = Some cv' \<and>
           length (curve_values cv') = length (curve_values cv) \<and>
           (\<forall>i < length (curve_values cv).
              curve_values cv' ! i =
                js_div (Math_round (js_mul
                  (lerp (js_nth (curve_values cv) 0)
                        (js_nth (curve_values cv) (length (curve_values cv) - 1))
                        (easingFunction (js_div (Num (real i)) (Num (real (length (curve_values cv)) - 1)))))
                  (Num 10))) (Num 10))"
  using assms
  by (auto simp: APPLY_EASING_FUNCTION_action_def access_defs update_conv' split: option.splits)

lemma APPLY_EASING_FUNCTION_empty_curve:
  assumes "curve_at c paletteId curveId = Some cv" and "curve_values cv = []"
  shows "\<exists>c'. APPLY_EASING_FUNCTION_action paletteId curveId easingFunction c = Inr c' \<and>
           curve_at c' paletteId curveId = Some cv"
  using assms
  by (auto simp: APPLY_EASING_FUNCTION_action_def access_defs update_conv' js_nth_def
      split: option.splits)

text \<open>
  A curve with the single value 0.25 does not keep it, whatever the easing function
  returns for the NaN it is given: the result is 0.3 or NaN.
\<close>

lemma APPLY_EASING_FUNCTION_single_value:
  assumes "curve_at c paletteId curveId = Some cv" and "curve_values cv = [Num (1 / 4)]"
  shows "\<exists>c' cv'. APPLY_EASING_FUNCTION_action paletteId curveId easingFunction c = Inr c' \<and>
           curve_at c' paletteId curveId = Some cv' \<and>
           (curve_values cv' = [Num (3 / 10)] \<or> curve_values cv' = [NaN])"
proof (cases "easingFunction NaN")
  case (Num t)
  have "(1 - t) * (1 / 4) + t * (1 / 4) = 1 / 4"
    by (simp add: diff_divide_distrib)
  then have "lerp (Num (1 / 4)) (Num (1 / 4)) (Num t) = Num (1 / 4)"
    by (simp only: lerp_def js_sub.simps js_mul.simps js_add.simps)
  with assms Num show ?thesis
    by (auto simp: APPLY_EASING_FUNCTION_action_def access_defs update_conv' js_nth_def
        split: option.splits)
next
  case NaN
  with assms show ?thesis
    by (auto simp: APPLY_EASING_FUNCTION_action_def access_defs update_conv' js_nth_def lerp_def
        split: option.splits)
next
  case Undefined
  with assms show ?thesis
    by (auto simp: APPLY_EASING_FUNCTION_action_def access_defs update_conv' js_nth_def lerp_def
        split: option.splits)
qed

text \<open>
  Claim C8: APPLY_EASING_FUNCTION rewrites every interior value to the eased
  interpolation between the first and the last value at \<open>t = index / (length - 1)\<close>,
  rounded to one decimal place, and leaves a curve with fewer than two values
  unchanged.

  The rewriting is as claimed in exact arithmetic (\<open>APPLY_EASING_FUNCTION_values\<close>), and
  an empty curve is left unchanged. A curve with one value is not: its only guard asks whether the first
  and the last value are present, which they are, and \<open>t\<close> is then \<^verbatim>\<open>0 / 0\<close>. With the
  linear easing the single value 0.25 becomes NaN.
\<close>

theorem APPLY_EASING_FUNCTION_single_value_becomes_NaN:
  "APPLY_EASING_FUNCTION_action ''p'' ''k'' LinearEasing
      (example_context (example_scale [Some gray] None) [Num (1 / 4)] [])
     = Inr (example_context (example_scale [Some gray] None) [NaN] [])"
  by (simp add: APPLY_EASING_FUNCTION_action_def with_palette_def with_curve_def bind_def
      js_nth_def lerp_def LinearEasing_def example_defs)

section \<open>Naming schemes\<close>

lemma resize_colors:
  assumes "cs \<noteq> []"
  shows "map (\<lambda>index. if index \<ge> length cs then js_index cs (int (length cs) - 1) else cs ! index) [0..<n]
         = take n cs @ replicate (n - length cs) (last cs)"
proof -
  from assms have l: "js_index cs (int (length cs) - 1) = last cs"
    by (cases cs rule: rev_cases) (auto simp: js_index_def nth_append nat_diff_distrib')
  show ?thesis
    by (rule nth_equalityI) (auto simp: l nth_append)
qed

text \<open>
  Claim C9: attaching a naming scheme with N names to a scale that has colors makes the
  scale's colors exactly N long: the first N colors in order, followed, when the scale
  had fewer, by copies of its last color. (The event names the scheme by its id; the
  empty string is read as no id.)
\<close>

theorem naming_scheme_resize:
  assumes "map_of (palettes c) paletteId = Some p"
    and "map_of (scales p) scaleId = Some s"
    and "map_of (namingSchemes p) nid = Some ns"
    and "nid \<noteq> []"
    and "colors s \<noteq> []"
  shows "\<exists>c' s'. CHANGE_SCALE_NAMING_SCHEME_action paletteId scaleId (Some nid) c = Inr c' \<and>
           scale_at c' paletteId scaleId = Some s' \<and>
           namingSchemeId s' = Some nid \<and>
           length (colors s') = length (names ns) \<and>
           colors s' = take (length (names ns)) (colors s)
             @ replicate (length (names ns) - length (colors s)) (last (colors s))"
  using assms
  by (simp add: CHANGE_SCALE_NAMING_SCHEME_action_def with_palette_def with_scale_def bind_def
      Let_def scale_at_def update_conv' resize_colors cong: if_cong)

text \<open>Two colors under a scheme of three names: the white is repeated.\<close>

theorem naming_scheme_resize_witness:
  "\<exists>c' s'. CHANGE_SCALE_NAMING_SCHEME_action ''p'' ''s'' (Some ''n'')
              (example_context (example_scale [Some gray, Some white] None) []
                 [''100'', ''200'', ''300'']) = Inr c' \<and>
           scale_at c' ''p'' ''s'' = Some s' \<and>
           namingSchemeId s' = Some ''n'' \<and>
           length (colors s') = 3 \<and>
           colors s' = [Some gray, Some white, Some white]"
proof -
  let ?s = "example_scale [Some gray, Some white] None"
  let ?c = "example_context ?s [] [''100'', ''200'', ''300'']"
  let ?ns = "\<lparr>naming_scheme_id = ''n'', naming_scheme_name = ''steps'',
               names = [''100'', ''200'', ''300'']\<rparr>"
  obtain p where p: "map_of (palettes ?c) ''p'' = Some p"
    and s: "map_of (scales p) ''s'' = Some ?s"
    and n: "map_of (namingSchemes p) ''n'' = Some ?ns"
    by (simp add: example_context_def)
  have ne: "''n'' \<noteq> []" by simp
  have cs: "colors ?s \<noteq> []" by (simp add: example_scale_def)
  from naming_scheme_resize [OF p s n ne cs] show ?thesis
    by (simp add: example_scale_def numeral_3_eq_3)
qed

text \<open>
  Claim C10: CHANGE_SCALE_NAMING_SCHEME with no naming scheme id sets the scale's
  \<^verbatim>\<open>namingSchemeId\<close> to null and changes nothing else: the scale's other fields, the other
  scales, the curves and the naming schemes of the palette, the other palettes, their
  order, and the history stacks are as before.
\<close>

theorem detach_naming_scheme_frame:
  assumes "map_of (palettes c) paletteId = Some p"
    and "map_of (scales p) scaleId = Some s"
  shows "\<exists>c' p'. CHANGE_SCALE_NAMING_SCHEME_action paletteId scaleId None c = Inr c' \<and>
           past c' = past c \<and> future c' = future c \<and>
           map fst (palettes c') = map fst (palettes c) \<and>
           (\<forall>q. q \<noteq> paletteId \<longrightarrow> map_of (palettes c') q = map_of (palettes c) q) \<and>
           map_of (palettes c') paletteId = Some p' \<and>
           palette_id p' = palette_id p \<and> palette_name p' = palette_name p \<and>
           backgroundColor p' = backgroundColor p \<and>
           curves p' = curves p \<and> namingSchemes p' = namingSchemes p \<and>
           map fst (scales p') = map fst (scales p) \<and>
           (\<forall>t. t \<noteq> scaleId \<longrightarrow> map_of (scales p') t = map_of (scales p) t) \<and>
           map_of (scales p') scaleId = Some (s\<lparr>namingSchemeId := None\<rparr>)"
proof -
  have kp: "paletteId \<in> set (map fst (palettes c))"
    using assms(1) by (metis map_of_eq_None_iff option.distinct(1) set_map)
  have ks: "scaleId \<in> set (map fst (scales p))"
    using assms(2) by (metis map_of_eq_None_iff option.distinct(1) set_map)
  show ?thesis
    using assms kp ks
    by (simp add: CHANGE_SCALE_NAMING_SCHEME_action_def with_palette_def with_scale_def bind_def
        Let_def update_conv' update_keys)
qed

text \<open>A scale under the scheme \<open>n\<close> is detached: its colors, the curve and the scheme stay.\<close>

theorem detach_naming_scheme_frame_witness:
  "\<exists>c' p'. CHANGE_SCALE_NAMING_SCHEME_action ''p'' ''s'' None
              (example_context (example_scale [Some gray, Some white] (Some ''n'')) [Num 20]
                 [''100'', ''200'']) = Inr c' \<and>
           past c' = [] \<and> future c' = [] \<and>
           map fst (palettes c') = [''p''] \<and>
           map_of (palettes c') ''p'' = Some p' \<and>
           map_of (curves p') ''k''
             = Some \<lparr>curve_id = ''k'', curve_name = ''ramp'', curve_type = Lightness,
                     curve_values = [Num 20]\<rparr> \<and>
           map_of (namingSchemes p') ''n''
             = Some \<lparr>naming_scheme_id = ''n'', naming_scheme_name = ''steps'',
                     names = [''100'', ''200'']\<rparr> \<and>
           map_of (scales p') ''s'' = Some (example_scale [Some gray, Some white] None)"
proof -
  let ?s = "example_scale [Some gray, Some white] (Some ''n'')"
  let ?c = "example_context ?s [Num 20] [''100'', ''200'']"
  obtain p where p: "map_of (palettes ?c) ''p'' = Some p"
    and s: "map_of (scales p) ''s'' = Some ?s"
    and k: "curves p = [(''k'', \<lparr>curve_id = ''k'', curve_name = ''ramp'', curve_type = Lightness,
                     curve_values = [Num 20]\<rparr>)]"
    and n: "namingSchemes p = [(''n'', \<lparr>naming_scheme_id = ''n'', naming_scheme_name = ''steps'',
                     names = [''100'', ''200'']\<rparr>)]"
    by (simp add: example_context_def)
  from detach_naming_scheme_frame [OF p s] obtain c' p' where
    "CHANGE_SCALE_NAMING_SCHEME_action ''p'' ''s'' None ?c = Inr c'"
    "past c' = past ?c" "future c' = future ?c"
    "map fst (palettes c') = map fst (palettes ?c)"
    "map_of (palettes c') ''p'' = Some p'"
    "curves p' = curves p" "namingSchemes p' = namingSchemes p"
    "map_of (scales p') ''s'' = Some (?s\<lparr>namingSchemeId := None\<rparr>)"
    by blast
  with k n show ?thesis
    by (auto simp: example_context_def example_scale_def)
qed

end
